theory Spec2Isabelle
  imports Complex_Main
begin

section \<open>JavaScript strings and the built-in operations the analyzers call\<close>

text \<open>
  The engine of Baseline Copilot exists twice: class \<open>BaselineAnalyzer\<close> in
  \<^verbatim>\<open>src/index.js\<close> (the web UI) and class \<open>EnhancedBaselineAnalyzer\<close>, the second
  document of \<^verbatim>\<open>cli/index.ts\<close>. Both are embedded here.

  A JavaScript string is a \<open>string\<close>; one \<open>char\<close> stands for one code unit below 256.
  A JavaScript number is a \<open>nat\<close> or an \<open>int\<close> where the source only ever holds an
  integer (counts, line and column), and a \<open>rat\<close> otherwise: the value of the double. In
  \<open>BaselineAnalyzer\<close> every score is an integer and its arithmetic is exact; in
  \<open>EnhancedBaselineAnalyzer\<close> the scores are fractions and every operation rounds, see
  the section on doubles.
\<close>

text \<open>The values a caller can pass where the analyzers expect a string, and the errors
  that the methods embedded below can throw.\<close>

datatype js_value = Undefined | Null | JBoolean bool | JNumber rat | JString string

datatype js_error = TypeError | SyntaxError | NetworkError

text \<open>\<^verbatim>\<open>s.split(sep)\<close> for a one-character separator: never empty, \<open>[""]\<close> on the empty string.\<close>

fun js_split :: "char \<Rightarrow> string \<Rightarrow> string list" where
  "js_split sep [] = [[]]"
| "js_split sep (c # cs) =
     (if c = sep then [] # js_split sep cs
      else (case js_split sep cs of
              [] \<Rightarrow> [[c]]
            | l # ls \<Rightarrow> (c # l) # ls))"

text \<open>\<^verbatim>\<open>s.indexOf(m)\<close>: the first position at which \<open>m\<close> occurs in \<open>s\<close>, or \<open>-1\<close>.\<close>

fun indexOf_from :: "int \<Rightarrow> string \<Rightarrow> string \<Rightarrow> int" where
  "indexOf_from i [] m = (if m = [] then i else - 1)"
| "indexOf_from i (c # cs) m =
     (if take (length m) (c # cs) = m then i else indexOf_from (i + 1) cs m)"

definition indexOf :: "string \<Rightarrow> string \<Rightarrow> int" where
  "indexOf s m = indexOf_from 0 s m"

text \<open>The white space of \<^verbatim>\<open>\s\<close> and of \<^verbatim>\<open>trim()\<close>, as far as it lies below 256:
  tab, line feed, vertical tab, form feed, carriage return, space, no-break space.\<close>

definition js_whitespace :: "char list" where
  "js_whitespace = [CHR 0x09, CHR 0x0A, CHR 0x0B, CHR 0x0C, CHR 0x0D, CHR 0x20, CHR 0xA0]"

definition trim :: "string \<Rightarrow> string" where
  "trim s = rev (dropWhile (\<lambda>c. c \<in> set js_whitespace)
                  (rev (dropWhile (\<lambda>c. c \<in> set js_whitespace) s)))"

text \<open>Template-literal interpolation of a count, \<^verbatim>\<open>`${n}`\<close>: its decimal digits.\<close>

fun string_of_nat :: "nat \<Rightarrow> string" where
  "string_of_nat n =
     (if n < 10 then [char_of (48 + n)]
      else string_of_nat (n div 10) @ [char_of (48 + n mod 10)])"

subsection \<open>Doubles\<close>

text \<open>
  A finite IEEE 754 double is taken as the rational number it denotes. \<open>to_double\<close> rounds a
  rational to the nearest double, a tie to the even significand: for \<open>2\<^sup>e \<le> x < 2\<^sup>e\<^sup>+\<^sup>1\<close> the
  doubles are the multiples of \<open>2\<^sup>e\<^sup>-\<^sup>5\<^sup>2\<close>. Subnormal numbers and overflow are left out:
  the scores are 0 or at least 0.8, and a sum beyond the largest double is capped at 100 as
  the sum \<open>Infinity\<close> is. An arithmetic operator of JavaScript is the exact operation followed
  by \<open>to_double\<close>; a decimal literal such as \<open>0.8\<close> is \<open>to_double\<close> of its value.
\<close>

definition pow2 :: "int \<Rightarrow> rat" where
  "pow2 e = (if 0 \<le> e then 2 ^ nat e else 1 / 2 ^ nat (- e))"

text \<open>\<open>ilog2 n\<close> is the integer part of the binary logarithm of \<open>n \<ge> 1\<close>.\<close>

function ilog2 :: "int \<Rightarrow> int" where
  "ilog2 n = (if n \<le> 1 then 0 else 1 + ilog2 (n div 2))"
  by pat_completeness auto
termination
  by (relation "measure nat") auto

declare ilog2.simps [simp del]

text \<open>The \<open>e\<close> with \<open>2\<^sup>e \<le> x < 2\<^sup>e\<^sup>+\<^sup>1\<close>, for \<open>x > 0\<close>.\<close>

definition binary_exponent :: "rat \<Rightarrow> int" where
  "binary_exponent x =
     (if 1 \<le> x then ilog2 \<lfloor>x\<rfloor>
      else - (1 + ilog2 (\<lceil>1 / x\<rceil> - 1)))"

definition round_half_even :: "rat \<Rightarrow> int" where
  "round_half_even y =
     (let f = \<lfloor>y\<rfloor>; d = y - of_int f
      in if d < 1 / 2 then f
         else if 1 / 2 < d then f + 1
         else if even f then f else f + 1)"

definition round_positive :: "rat \<Rightarrow> rat" where
  "round_positive x =
     (let ulp = pow2 (binary_exponent x - 52)
      in ulp * of_int (round_half_even (x / ulp)))"

definition to_double :: "rat \<Rightarrow> rat" where
  "to_double x =
     (if x = 0 then 0
      else if 0 < x then round_positive x
      else - round_positive (- x))"

definition dadd :: "rat \<Rightarrow> rat \<Rightarrow> rat" where
  "dadd a b = to_double (a + b)"

definition dsub :: "rat \<Rightarrow> rat \<Rightarrow> rat" where
  "dsub a b = to_double (a - b)"

definition dmul :: "rat \<Rightarrow> rat \<Rightarrow> rat" where
  "dmul a b = to_double (a * b)"

definition ddiv :: "rat \<Rightarrow> rat \<Rightarrow> rat" where
  "ddiv a b = to_double (a / b)"

subsection \<open>Regular expressions\<close>

text \<open>
  The feature table holds \<open>RegExp\<close> literals. Their syntax is small: literal characters,
  the escapes \<^verbatim>\<open>\s\<close> and \<^verbatim>\<open>\d\<close>, one character class, \<^verbatim>\<open>|\<close>, the greedy
  quantifiers \<^verbatim>\<open>*\<close>, \<^verbatim>\<open>+\<close>, \<^verbatim>\<open>?\<close> and the flag \<^verbatim>\<open>i\<close>. The matcher below is the
  backtracking matcher of ECMAScript for this syntax: \<open>rmatch\<close> lists what is left of
  the input after each way of matching at its start, the way the engine tries first coming first.
\<close>

datatype regex =
    Eps
  | Chars "char list"
  | Seq regex regex
  | Alt regex regex
  | Star regex

record regexp =
  source :: regex
  ignoreCase :: bool

fun lit :: "string \<Rightarrow> regex" where
  "lit [] = Eps"
| "lit (c # cs) = Seq (Chars [c]) (lit cs)"

definition Plus :: "regex \<Rightarrow> regex" where
  "Plus r = Seq r (Star r)"

definition Opt :: "regex \<Rightarrow> regex" where
  "Opt r = Alt r Eps"

definition seqs :: "regex list \<Rightarrow> regex" where
  "seqs rs = foldr Seq rs Eps"

definition space_class :: regex where
  "space_class = Chars js_whitespace"

definition digit_class :: regex where
  "digit_class = Chars ''0123456789''"

text \<open>Canonicalisation under the flag \<^verbatim>\<open>i\<close>: an ASCII lower-case letter becomes its
  upper-case letter. (The table's patterns contain ASCII only, and ECMAScript never
  canonicalises a character from 128 on to an ASCII one.)\<close>

definition canonicalize :: "char \<Rightarrow> char" where
  "canonicalize c =
     (if 97 \<le> (of_char c :: nat) \<and> (of_char c :: nat) \<le> 122
      then char_of ((of_char c :: nat) - 32) else c)"

definition char_matches :: "bool \<Rightarrow> char list \<Rightarrow> char \<Rightarrow> bool" where
  "char_matches ic cs c =
     (if ic then canonicalize c \<in> set (map canonicalize cs) else c \<in> set cs)"

text \<open>A quantified sub-pattern is repeated greedily: first one more iteration, then none.
  An iteration that consumes nothing is rejected, which is why the repetition ends.\<close>

fun star_from :: "(string \<Rightarrow> string list) \<Rightarrow> string \<Rightarrow> string list" where
  "star_from step s =
     concat (map (star_from step) (filter (\<lambda>t. length t < length s) (step s))) @ [s]"

declare star_from.simps [simp del]

primrec rmatch :: "bool \<Rightarrow> regex \<Rightarrow> string \<Rightarrow> string list" where
  "rmatch ic Eps s = [s]"
| "rmatch ic (Chars cs) s =
     (case s of [] \<Rightarrow> [] | c # t \<Rightarrow> if char_matches ic cs c then [t] else [])"
| "rmatch ic (Seq r1 r2) s = concat (map (rmatch ic r2) (rmatch ic r1 s))"
| "rmatch ic (Alt r1 r2) s = rmatch ic r1 s @ rmatch ic r2 s"
| "rmatch ic (Star r) s = star_from (rmatch ic r) s"

text \<open>\<open>exec_from i p s\<close>: the leftmost match of \<open>p\<close> in \<open>s\<close>, as its index (counted from
  \<open>i\<close>) and its text \<^verbatim>\<open>match[0]\<close>; \<open>None\<close> is the \<open>null\<close> of a failed match.\<close>

fun exec_from :: "nat \<Rightarrow> regexp \<Rightarrow> string \<Rightarrow> (nat \<times> string) option" where
  "exec_from i p [] =
     (case rmatch (ignoreCase p) (source p) [] of [] \<Rightarrow> None | _ # _ \<Rightarrow> Some (i, []))"
| "exec_from i p (c # cs) =
     (case rmatch (ignoreCase p) (source p) (c # cs) of
        [] \<Rightarrow> exec_from (Suc i) p cs
      | rest # _ \<Rightarrow> Some (i, take (length (c # cs) - length rest) (c # cs)))"

text \<open>\<^verbatim>\<open>line.match(pattern)\<close> for a pattern without the flag \<^verbatim>\<open>g\<close>: only the first match;
  the model keeps its text, the one component the analyzers read.\<close>

definition js_match :: "string \<Rightarrow> regexp \<Rightarrow> string option" where
  "js_match line p = map_option snd (exec_from 0 p line)"

section \<open>The data model\<close>

text \<open>
  A feature descriptor of \<open>BaselineAnalyzer\<close>, as the object literals of
  \<open>loadFeatureDatabase\<close> have it. The fields carry the prefix \<open>f_\<close> because the
  occurrences below repeat most of their names. \<open>f_baseline\<close>, \<open>f_polyfill\<close> and
  \<open>f_fallback\<close> are \<open>None\<close> where the literal has \<open>null\<close> or leaves the property out.
\<close>

record feature =
  f_id :: string
  f_pattern :: regexp
  f_name :: string
  f_status :: string
  f_baseline :: "string option"
  f_browsers :: "(string \<times> string) list"
  f_polyfill :: "string option"
  f_fallback :: "string option"
  f_mdn :: string

text \<open>One occurrence, the object that \<open>analyzeCode\<close> pushes onto \<open>results\<close>; \<open>id\<close> and
  \<open>feature\<close> are spelled \<open>issue_id\<close> and \<open>feature_name\<close> here.\<close>

record issue =
  issue_id :: string
  feature_name :: string
  line :: nat
  column :: int
  code :: string
  status :: string
  baseline :: "string option"
  browsers :: "(string \<times> string) list"
  polyfill :: "string option"
  fallback :: "string option"
  mdn :: string
  severity :: string
  matchedText :: string

record suggestion =
  kind :: string
  message :: string
  action :: string

text \<open>\<open>analyzedAt\<close>, the wall-clock time of the call, is left out of the metadata.\<close>

record metadata =
  linesOfCode :: nat
  charactersCount :: nat

record summary =
  total :: nat
  riskScore :: rat
  riskLevel :: string
  breakdown :: "(string \<times> nat) list"
  compatibilityScore :: rat

record 'i analysis =
  summary :: summary
  issues :: "'i list"
  suggestions :: "suggestion list"
  metadata :: metadata

text \<open>A \<open>Map\<close> keeps its keys in insertion order and \<open>forEach\<close> visits them in that
  order: an association list in which \<open>set\<close> overwrites in place.\<close>

fun map_set :: "'k \<Rightarrow> 'v \<Rightarrow> ('k \<times> 'v) list \<Rightarrow> ('k \<times> 'v) list" where
  "map_set k v [] = [(k, v)]"
| "map_set k v ((k', v') # m) =
     (if k' = k then (k, v) # m else (k', v') # map_set k v m)"

record BaselineAnalyzer =
  features :: "(string \<times> feature) list"

section \<open>BaselineAnalyzer (src/index.js)\<close>

subsection \<open>The feature table\<close>

definition browser_table :: "string \<Rightarrow> string \<Rightarrow> string \<Rightarrow> string \<Rightarrow> (string \<times> string) list" where
  "browser_table c f s e = [(''chrome'', c), (''firefox'', f), (''safari'', s), (''edge'', e)]"

definition feature_literals :: "feature list" where
  "feature_literals =
   [ \<lparr> f_id = ''dialog-api'',
       f_pattern = \<lparr> source = Alt (lit ''.showModal()'') (Alt (lit ''<dialog'') (lit ''HTMLDialogElement'')),
                     ignoreCase = True \<rparr>,
       f_name = ''HTML Dialog API'',
       f_status = ''newly-available'',
       f_baseline = Some ''2022-03-14'',
       f_browsers = browser_table ''37+'' ''98+'' ''15.4+'' ''79+'',
       f_polyfill = Some ''dialog-polyfill'',
       f_fallback = Some ''Modal div with ARIA attributes'',
       f_mdn = ''https://developer.mozilla.org/docs/Web/HTML/Element/dialog'' \<rparr>,
     \<lparr> f_id = ''array-at'',
       f_pattern = \<lparr> source = seqs [lit ''.at'', Star space_class, lit ''('', Star space_class,
                                     Opt (lit ''-''), Plus digit_class, Star space_class, lit '')''],
                     ignoreCase = False \<rparr>,
       f_name = ''Array.prototype.at()'',
       f_status = ''widely-available'',
       f_baseline = Some ''2022-01-15'',
       f_browsers = browser_table ''92+'' ''90+'' ''15.4+'' ''92+'',
       f_polyfill = None,
       f_fallback = Some ''array[array.length - 1] or array.slice(-1)[0]'',
       f_mdn = ''https://developer.mozilla.org/docs/Web/JavaScript/Reference/Global_Objects/Array/at'' \<rparr>,
     \<lparr> f_id = ''optional-chaining'',
       f_pattern = \<lparr> source = lit ''?.'', ignoreCase = False \<rparr>,
       f_name = ''Optional Chaining (?.)'',
       f_status = ''widely-available'',
       f_baseline = Some ''2020-04-21'',
       f_browsers = browser_table ''80+'' ''72+'' ''13.1+'' ''80+'',
       f_polyfill = None,
       f_fallback = Some ''Manual null/undefined checks'',
       f_mdn = ''https://developer.mozilla.org/docs/Web/JavaScript/Reference/Operators/Optional_chaining'' \<rparr>,
     \<lparr> f_id = ''nullish-coalescing'',
       f_pattern = \<lparr> source = lit ''??'', ignoreCase = False \<rparr>,
       f_name = ''Nullish Coalescing (??)'',
       f_status = ''widely-available'',
       f_baseline = Some ''2020-04-21'',
       f_browsers = browser_table ''80+'' ''72+'' ''13.1+'' ''80+'',
       f_polyfill = None,
       f_fallback = Some ''value != null ? value : defaultValue'',
       f_mdn = ''https://developer.mozilla.org/docs/Web/JavaScript/Reference/Operators/Nullish_coalescing_operator'' \<rparr>,
     \<lparr> f_id = ''temporal-api'',
       f_pattern = \<lparr> source = lit ''Temporal.'', ignoreCase = False \<rparr>,
       f_name = ''Temporal API'',
       f_status = ''unsupported'',
       f_baseline = None,
       f_browsers = browser_table ''None'' ''None'' ''None'' ''None'',
       f_polyfill = Some ''@js-temporal/polyfill'',
       f_fallback = None,
       f_mdn = ''https://tc39.es/proposal-temporal/'' \<rparr>,
     \<lparr> f_id = ''object-hasown'',
       f_pattern = \<lparr> source = lit ''Object.hasOwn('', ignoreCase = False \<rparr>,
       f_name = ''Object.hasOwn()'',
       f_status = ''newly-available'',
       f_baseline = Some ''2022-01-15'',
       f_browsers = browser_table ''93+'' ''92+'' ''15.4+'' ''93+'',
       f_polyfill = None,
       f_fallback = Some ''Object.prototype.hasOwnProperty.call()'',
       f_mdn = ''https://developer.mozilla.org/docs/Web/JavaScript/Reference/Global_Objects/Object/hasOwn'' \<rparr>,
     \<lparr> f_id = ''container-queries'',
       f_pattern = \<lparr> source = Alt (lit ''@container'') (Alt (lit ''container-type:'') (lit ''container-name:'')),
                     ignoreCase = True \<rparr>,
       f_name = ''CSS Container Queries'',
       f_status = ''newly-available'',
       f_baseline = Some ''2023-02-14'',
       f_browsers = browser_table ''105+'' ''110+'' ''16.0+'' ''105+'',
       f_polyfill = None,
       f_fallback = Some ''Media queries with JavaScript'',
       f_mdn = ''https://developer.mozilla.org/docs/Web/CSS/CSS_Container_Queries'' \<rparr>,
     \<lparr> f_id = ''css-has'',
       f_pattern = \<lparr> source = lit '':has('', ignoreCase = True \<rparr>,
       f_name = ''CSS :has() Selector'',
       f_status = ''newly-available'',
       f_baseline = Some ''2023-12-18'',
       f_browsers = browser_table ''105+'' ''121+'' ''15.4+'' ''105+'',
       f_polyfill = None,
       f_fallback = Some ''JavaScript-based selection'',
       f_mdn = ''https://developer.mozilla.org/docs/Web/CSS/:has'' \<rparr>,
     \<lparr> f_id = ''css-nesting'',
       f_pattern = \<lparr> source = seqs [lit ''&'', Star space_class, Chars '':{.#''], ignoreCase = False \<rparr>,
       f_name = ''CSS Nesting'',
       f_status = ''newly-available'',
       f_baseline = Some ''2023-03-28'',
       f_browsers = browser_table ''112+'' ''117+'' ''16.5+'' ''112+'',
       f_polyfill = None,
       f_fallback = Some ''Sass/SCSS preprocessing'',
       f_mdn = ''https://developer.mozilla.org/docs/Web/CSS/CSS_Nesting'' \<rparr>,
     \<lparr> f_id = ''fetch-api'',
       f_pattern = \<lparr> source = seqs [lit ''fetch'', Star space_class, lit ''(''], ignoreCase = False \<rparr>,
       f_name = ''Fetch API'',
       f_status = ''widely-available'',
       f_baseline = Some ''2017-03-01'',
       f_browsers = browser_table ''42+'' ''39+'' ''10.1+'' ''14+'',
       f_polyfill = None,
       f_fallback = Some ''XMLHttpRequest or axios library'',
       f_mdn = ''https://developer.mozilla.org/docs/Web/API/Fetch_API'' \<rparr> ]"

text \<open>\<open>features.forEach(feature => this.features.set(feature.id, feature))\<close>, and the
  constructor, which starts from an empty \<open>Map\<close>.\<close>

definition loadFeatureDatabase :: "BaselineAnalyzer \<Rightarrow> BaselineAnalyzer" where
  "loadFeatureDatabase this =
     foldl (\<lambda>t feature. t\<lparr> features := map_set (f_id feature) feature (features t) \<rparr>)
       this feature_literals"

definition new_BaselineAnalyzer :: BaselineAnalyzer where
  "new_BaselineAnalyzer = loadFeatureDatabase \<lparr> features = [] \<rparr>"

subsection \<open>Classification and scoring\<close>

text \<open>\<open>getSeverity\<close>: a look-up in the object literal \<open>severityMap\<close>, with \<open>'info'\<close> for a
  status that is no key of it. (Both classes have this method, with the same text. A status
  is never the name of a member that an object literal inherits, such as \<open>constructor\<close>.)\<close>

definition severityMap :: "(string \<times> string) list" where
  "severityMap =
     [(''widely-available'', ''info''),
      (''newly-available'', ''warning''),
      (''limited'', ''warning''),
      (''unsupported'', ''error'')]"

definition getSeverity :: "string \<Rightarrow> string" where
  "getSeverity st = (case map_of severityMap st of Some sev \<Rightarrow> sev | None \<Rightarrow> ''info'')"

text \<open>The \<open>switch\<close> of the scoring loops: what one occurrence adds by its severity; a
  severity without a \<open>case\<close> adds nothing.\<close>

definition severity_points :: "string \<Rightarrow> rat" where
  "severity_points sev =
     (if sev = ''error'' then 15
      else if sev = ''warning'' then 5
      else if sev = ''info'' then 1
      else 0)"

definition calculateRiskScore :: "('a issue_scheme) list \<Rightarrow> rat" where
  "calculateRiskScore results =
     min 100 (foldl (\<lambda>score result. score + severity_points (severity result)) 0 results)"

text \<open>\<open>getRiskLevel\<close>, the same text in both classes.\<close>

definition getRiskLevel :: "rat \<Rightarrow> string" where
  "getRiskLevel score =
     (if score \<ge> 40 then ''high''
      else if score \<ge> 15 then ''medium''
      else ''low'')"

text \<open>\<open>groupBySeverity\<close>: \<open>acc[severity] = (acc[severity] || 0) + 1\<close> over an object that
  starts empty, its keys in the order of their first use.\<close>

definition groupBySeverity :: "('a issue_scheme) list \<Rightarrow> (string \<times> nat) list" where
  "groupBySeverity results =
     foldl (\<lambda>acc result.
              map_set (severity result)
                ((case map_of acc (severity result) of None \<Rightarrow> 0 | Some n \<Rightarrow> n) + 1) acc)
       [] results"

text \<open>\<open>generateSuggestions\<close>. A polyfill name is truthy when it is present and not empty.
  The array \<open>suggestions\<close> is threaded through the three \<open>if\<close> statements.\<close>

definition truthy :: "string option \<Rightarrow> bool" where
  "truthy v = (case v of None \<Rightarrow> False | Some s \<Rightarrow> s \<noteq> [])"

definition generateSuggestions :: "('a issue_scheme) list \<Rightarrow> suggestion list" where
  "generateSuggestions results =
     (let suggestions = [];
          errorCount = length (filter (\<lambda>r. severity r = ''error'') results);
          warningCount = length (filter (\<lambda>r. severity r = ''warning'') results);
          suggestions =
            (if errorCount > 0
             then suggestions @
               [\<lparr> kind = ''error'',
                  message = string_of_nat errorCount @ '' unsupported feature'' @
                            (if errorCount > 1 then ''s'' else []) @
                            '' may break in older browsers'',
                  action = ''Add polyfills or implement fallbacks'' \<rparr>]
             else suggestions);
          suggestions =
            (if warningCount > 2
             then suggestions @
               [\<lparr> kind = ''warning'',
                  message = string_of_nat warningCount @ '' newly available features detected'',
                  action = ''Verify against your browser support requirements'' \<rparr>]
             else suggestions);
          hasPolyfills = length (filter (\<lambda>r. truthy (polyfill r)) results);
          suggestions =
            (if hasPolyfills > 0
             then suggestions @
               [\<lparr> kind = ''fix'',
                  message = string_of_nat hasPolyfills @ '' feature'' @
                            (if hasPolyfills > 1 then ''s have'' else '' has'') @
                            '' polyfill options available'',
                  action = ''Consider adding recommended polyfills'' \<rparr>]
             else suggestions)
      in suggestions)"

definition enrichResults :: "issue list \<Rightarrow> string \<Rightarrow> issue analysis" where
  "enrichResults results code_text =
     (let riskScore = calculateRiskScore results;
          grouped = groupBySeverity results;
          suggestions = generateSuggestions results
      in \<lparr> summary =
             \<lparr> total = length results,
               riskScore = riskScore,
               riskLevel = getRiskLevel riskScore,
               breakdown = grouped,
               compatibilityScore = max 0 (100 - riskScore) \<rparr>,
           issues = results,
           suggestions = suggestions,
           metadata =
             \<lparr> linesOfCode = length (js_split CHR 0x0A code_text),
               charactersCount = length code_text \<rparr> \<rparr>)"

subsection \<open>The matching pass\<close>

text \<open>The body of the inner \<open>forEach\<close>: one line against one feature. \<open>lineIndex\<close> counts
  from 0. The guard \<open>if (match)\<close> is the case distinction on the result of \<open>js_match\<close>.\<close>

definition scan_line :: "string \<Rightarrow> feature \<Rightarrow> issue list \<Rightarrow> nat \<times> string \<Rightarrow> issue list" where
  "scan_line fid feature results il =
     (case il of (lineIndex, line_text) \<Rightarrow>
        (case js_match line_text (f_pattern feature) of
           None \<Rightarrow> results
         | Some m0 \<Rightarrow>
             results @
             [\<lparr> issue_id = fid,
                feature_name = f_name feature,
                line = lineIndex + 1,
                column = indexOf line_text m0 + 1,
                code = trim line_text,
                status = f_status feature,
                baseline = f_baseline feature,
                browsers = f_browsers feature,
                polyfill = f_polyfill feature,
                fallback = f_fallback feature,
                mdn = f_mdn feature,
                severity = getSeverity (f_status feature),
                matchedText = m0 \<rparr>]))"

text \<open>\<open>analyzeCode(code, language)\<close>: the outer \<open>forEach\<close> runs over the \<open>Map\<close>, the
  inner one over the lines; \<open>language\<close> is not read. The arguments are whatever the
  caller passes: \<open>code.split\<close> is the one place where the method can throw, a
  \<open>TypeError\<close> when \<open>code\<close> is no string.\<close>

definition analyzeCode ::
  "BaselineAnalyzer \<Rightarrow> js_value \<Rightarrow> js_value \<Rightarrow> js_error + issue analysis" where
  "analyzeCode this code_arg language =
     (case code_arg of
        JString code_text \<Rightarrow>
          (let results = [];
               lines = js_split CHR 0x0A code_text;
               results =
                 foldl (\<lambda>results (fid, feature).
                          foldl (scan_line fid feature) results (enumerate 0 lines))
                   results (features this)
           in Inr (enrichResults results code_text))
      | _ \<Rightarrow> Inl TypeError)"

section \<open>EnhancedBaselineAnalyzer (cli/index.ts, second document)\<close>

subsection \<open>The host: clock, dates, regular-expression constructor\<close>

text \<open>
  \<open>getBaselineStatus\<close> reads the clock (\<open>new Date()\<close>) and parses date strings
  (\<open>new Date(s)\<close>); \<open>getDetectionPattern\<close> may compile a key with
  \<open>new RegExp(key, 'i')\<close>. These belong to the JavaScript host and are parameters of
  the embedding. A time value is a number of milliseconds; \<open>None\<close> is the \<open>NaN\<close> of an
  invalid date. The constructor of regular expressions throws a \<open>SyntaxError\<close> on a
  source text that is no pattern.
\<close>

record host =
  now :: int
  Date_parse :: "string \<Rightarrow> int option"
  RegExp_new :: "string \<Rightarrow> js_error + regex"

subsection \<open>Data\<close>

record baseline_info =
  baseline_status :: string
  low_date :: string
  high_date :: string

record web_feature =
  wf_name :: string
  wf_description :: string
  wf_spec :: string
  wf_group :: string
  wf_snapshot :: string
  wf_baseline :: "baseline_info option"
  wf_support :: "(string \<times> string) list option"

text \<open>An entry of the dashboard data, of the performance data and of the community data.\<close>

record usage_stats =
  percentage :: rat
  trend :: string
  monthly_growth :: rat

record developer_sentiment =
  satisfaction :: rat
  adoption_rate :: string

record usage =
  usage_stats :: usage_stats
  developer_sentiment :: developer_sentiment

record performance =
  impact :: string
  bundle_size :: string
  runtime_overhead :: string
  polyfill_size :: string

record community =
  votes :: nat
  rating :: rat
  comments :: nat
  issues_reported :: nat
  success_stories :: nat

text \<open>The normalised descriptor extends the one of \<open>BaselineAnalyzer\<close>; the occurrence
  extends its occurrence by the descriptor's extra fields and the three annotations, which
  are \<open>None\<close> where \<open>Map.get\<close> returns \<open>undefined\<close>.\<close>

record efeature = feature +
  f_description :: string
  f_spec :: string
  f_group :: string
  f_severity :: string

record eissue = issue +
  description :: string
  spec :: string
  group :: string
  usage :: "usage option"
  performance :: "performance option"
  community :: "community option"

text \<open>The object: four \<open>Map\<close>s and a flag. \<open>console\<close> collects what the methods print.\<close>

record EnhancedBaselineAnalyzer =
  efeatures :: "(string \<times> efeature) list"
  webPlatformData :: "(string \<times> usage) list"
  performanceData :: "(string \<times> performance) list"
  communityData :: "(string \<times> community) list"
  isDataLoaded :: bool
  console :: "string list"

definition webFeaturesData :: "(string \<times> web_feature) list" where
  "webFeaturesData =
   [ (''dialog'',
      \<lparr> wf_name = ''HTML Dialog Element'',
        wf_description = ''The <dialog> element represents a dialog box or other interactive component'',
        wf_spec = ''https://html.spec.whatwg.org/multipage/interactive-elements.html#the-dialog-element'',
        wf_group = ''html'',
        wf_snapshot = ''2022'',
        wf_baseline = Some \<lparr> baseline_status = ''high'', low_date = ''2022-03-14'', high_date = ''2024-09-14'' \<rparr>,
        wf_support = Some [(''chrome'', ''37''), (''chrome_android'', ''37''), (''edge'', ''79''),
                           (''firefox'', ''98''), (''firefox_android'', ''98''),
                           (''safari'', ''15.4''), (''safari_ios'', ''15.4'')] \<rparr>),
     (''array-at'',
      \<lparr> wf_name = ''Array.prototype.at()'',
        wf_description = ''The at() method takes an integer value and returns the item at that index'',
        wf_spec = ''https://tc39.es/ecma262/#sec-array.prototype.at'',
        wf_group = ''javascript'',
        wf_snapshot = ''2022'',
        wf_baseline = Some \<lparr> baseline_status = ''high'', low_date = ''2022-01-15'', high_date = ''2024-07-15'' \<rparr>,
        wf_support = Some [(''chrome'', ''92''), (''chrome_android'', ''92''), (''edge'', ''92''),
                           (''firefox'', ''90''), (''firefox_android'', ''90''),
                           (''safari'', ''15.4''), (''safari_ios'', ''15.4'')] \<rparr>),
     (''optional-chaining'',
      \<lparr> wf_name = ''Optional Chaining (?.)'',
        wf_description = ''Enables reading deeply-nested object properties without validating each reference'',
        wf_spec = ''https://tc39.es/ecma262/#prod-OptionalExpression'',
        wf_group = ''javascript'',
        wf_snapshot = ''2020'',
        wf_baseline = Some \<lparr> baseline_status = ''high'', low_date = ''2020-04-21'', high_date = ''2022-10-21'' \<rparr>,
        wf_support = Some [(''chrome'', ''80''), (''chrome_android'', ''80''), (''edge'', ''80''),
                           (''firefox'', ''72''), (''firefox_android'', ''79''),
                           (''safari'', ''13.1''), (''safari_ios'', ''13.4'')] \<rparr>),
     (''container-queries'',
      \<lparr> wf_name = ''CSS Container Queries'',
        wf_description = ''Style elements based on the size of their containing element'',
        wf_spec = ''https://www.w3.org/TR/css-contain-3/'',
        wf_group = ''css'',
        wf_snapshot = ''2023'',
        wf_baseline = Some \<lparr> baseline_status = ''high'', low_date = ''2023-02-14'', high_date = ''2025-08-14'' \<rparr>,
        wf_support = Some [(''chrome'', ''105''), (''chrome_android'', ''105''), (''edge'', ''105''),
                           (''firefox'', ''110''), (''firefox_android'', ''110''),
                           (''safari'', ''16.0''), (''safari_ios'', ''16.0'')] \<rparr>),
     (''css-has'',
      \<lparr> wf_name = ''CSS :has() Selector'',
        wf_description = ''Select elements that contain specific descendants'',
        wf_spec = ''https://www.w3.org/TR/selectors-4/#relational'',
        wf_group = ''css'',
        wf_snapshot = ''2023'',
        wf_baseline = Some \<lparr> baseline_status = ''high'', low_date = ''2023-12-18'', high_date = ''2026-06-18'' \<rparr>,
        wf_support = Some [(''chrome'', ''105''), (''chrome_android'', ''105''), (''edge'', ''105''),
                           (''firefox'', ''121''), (''firefox_android'', ''121''),
                           (''safari'', ''15.4''), (''safari_ios'', ''15.4'')] \<rparr>) ]"

definition dashboardData :: "(string \<times> usage) list" where
  "dashboardData =
   [ (''dialog'',
      \<lparr> usage_stats = \<lparr> percentage = to_double (125 / 10), trend = ''increasing'', monthly_growth = to_double (23 / 10) \<rparr>,
        developer_sentiment = \<lparr> satisfaction = to_double (42 / 10), adoption_rate = ''medium'' \<rparr> \<rparr>),
     (''array-at'',
      \<lparr> usage_stats = \<lparr> percentage = to_double (357 / 10), trend = ''stable'', monthly_growth = to_double (8 / 10) \<rparr>,
        developer_sentiment = \<lparr> satisfaction = to_double (46 / 10), adoption_rate = ''high'' \<rparr> \<rparr>),
     (''optional-chaining'',
      \<lparr> usage_stats = \<lparr> percentage = to_double (782 / 10), trend = ''stable'', monthly_growth = to_double (2 / 10) \<rparr>,
        developer_sentiment = \<lparr> satisfaction = to_double (48 / 10), adoption_rate = ''very_high'' \<rparr> \<rparr>) ]"

definition performanceData_literal :: "(string \<times> performance) list" where
  "performanceData_literal =
   [ (''dialog'', \<lparr> impact = ''minimal'', bundle_size = ''+2KB'',
                     runtime_overhead = ''negligible'', polyfill_size = ''8KB'' \<rparr>),
     (''array-at'', \<lparr> impact = ''minimal'', bundle_size = ''0KB'',
                       runtime_overhead = ''negligible'', polyfill_size = ''1KB'' \<rparr>),
     (''optional-chaining'', \<lparr> impact = ''positive'', bundle_size = ''0KB'',
                                runtime_overhead = ''reduced'', polyfill_size = ''3KB'' \<rparr>),
     (''container-queries'', \<lparr> impact = ''moderate'', bundle_size = ''+5KB'',
                                runtime_overhead = ''low'', polyfill_size = ''15KB'' \<rparr>),
     (''css-has'', \<lparr> impact = ''moderate'', bundle_size = ''+3KB'',
                      runtime_overhead = ''medium'', polyfill_size = ''12KB'' \<rparr>) ]"

definition communityData_literal :: "(string \<times> community) list" where
  "communityData_literal =
   [ (''dialog'', \<lparr> votes = 156, rating = to_double (42 / 10), comments = 23,
                     issues_reported = 8, success_stories = 12 \<rparr>),
     (''array-at'', \<lparr> votes = 342, rating = to_double (47 / 10), comments = 45,
                       issues_reported = 2, success_stories = 28 \<rparr>),
     (''optional-chaining'', \<lparr> votes = 1247, rating = to_double (49 / 10), comments = 167,
                                issues_reported = 1, success_stories = 89 \<rparr>) ]"

subsection \<open>Normalisation of a descriptor\<close>

text \<open>A \<open>Date\<close> compared with the clock by \<open>\<le>\<close>: both sides become their time values, and
  a comparison with \<open>NaN\<close> is false.\<close>

definition date_le :: "int option \<Rightarrow> int \<Rightarrow> bool" where
  "date_le d n = (case d of None \<Rightarrow> False | Some t \<Rightarrow> t \<le> n)"

definition getBaselineStatus :: "host \<Rightarrow> baseline_info option \<Rightarrow> string" where
  "getBaselineStatus h baseline_arg =
     (case baseline_arg of
        None \<Rightarrow> ''unsupported''
      | Some b \<Rightarrow>
          (let lowDate = Date_parse h (low_date b);
               highDate = Date_parse h (high_date b)
           in if date_le highDate (now h) then ''widely-available''
              else if date_le lowDate (now h) then ''newly-available''
              else ''limited''))"

definition patterns :: "(string \<times> regexp) list" where
  "patterns =
   [ (''dialog'', \<lparr> source = Alt (lit ''.showModal()'') (Alt (lit ''<dialog'') (lit ''HTMLDialogElement'')),
                     ignoreCase = True \<rparr>),
     (''array-at'', \<lparr> source = seqs [lit ''.at'', Star space_class, lit ''('', Star space_class,
                                       Opt (lit ''-''), Plus digit_class, Star space_class, lit '')''],
                       ignoreCase = False \<rparr>),
     (''optional-chaining'', \<lparr> source = lit ''?.'', ignoreCase = False \<rparr>),
     (''nullish-coalescing'', \<lparr> source = lit ''??'', ignoreCase = False \<rparr>),
     (''container-queries'',
        \<lparr> source = Alt (lit ''@container'') (Alt (lit ''container-type:'') (lit ''container-name:'')),
          ignoreCase = True \<rparr>),
     (''css-has'', \<lparr> source = lit '':has('', ignoreCase = True \<rparr>),
     (''css-nesting'', \<lparr> source = seqs [lit ''&'', Star space_class, Chars '':{.#''], ignoreCase = False \<rparr>),
     (''object-hasown'', \<lparr> source = lit ''Object.hasOwn('', ignoreCase = False \<rparr>),
     (''temporal-api'', \<lparr> source = lit ''Temporal.'', ignoreCase = False \<rparr>),
     (''fetch-api'', \<lparr> source = seqs [lit ''fetch'', Star space_class, lit ''(''], ignoreCase = False \<rparr>) ]"

text \<open>\<open>patterns[key] || new RegExp(key, 'i')\<close>\<close>

definition getDetectionPattern :: "host \<Rightarrow> string \<Rightarrow> js_error + regexp" where
  "getDetectionPattern h key =
     (case map_of patterns key of
        Some p \<Rightarrow> Inr p
      | None \<Rightarrow>
          (case RegExp_new h key of
             Inl e \<Rightarrow> Inl e
           | Inr r \<Rightarrow> Inr \<lparr> source = r, ignoreCase = True \<rparr>))"

text \<open>\<open>support.chrome ? `${support.chrome}+` : 'None'\<close>, and so on for the four browsers.\<close>

definition support_entry :: "(string \<times> string) list \<Rightarrow> string \<Rightarrow> string" where
  "support_entry support browser =
     (if truthy (map_of support browser) then the (map_of support browser) @ ''+'' else ''None'')"

definition formatBrowserSupport :: "(string \<times> string) list option \<Rightarrow> (string \<times> string) list" where
  "formatBrowserSupport support_arg =
     (case support_arg of
        None \<Rightarrow> []
      | Some support \<Rightarrow>
          [(''chrome'', support_entry support ''chrome''),
           (''firefox'', support_entry support ''firefox''),
           (''safari'', support_entry support ''safari''),
           (''edge'', support_entry support ''edge'')])"

definition mdnLinks :: "(string \<times> string) list" where
  "mdnLinks =
   [ (''dialog'', ''https://developer.mozilla.org/docs/Web/HTML/Element/dialog''),
     (''array-at'', ''https://developer.mozilla.org/docs/Web/JavaScript/Reference/Global_Objects/Array/at''),
     (''optional-chaining'', ''https://developer.mozilla.org/docs/Web/JavaScript/Reference/Operators/Optional_chaining''),
     (''container-queries'', ''https://developer.mozilla.org/docs/Web/CSS/CSS_Container_Queries''),
     (''css-has'', ''https://developer.mozilla.org/docs/Web/CSS/:has'') ]"

definition getMDNLink :: "string \<Rightarrow> string" where
  "getMDNLink key =
     (case map_of mdnLinks key of
        Some l \<Rightarrow> l
      | None \<Rightarrow> ''https://developer.mozilla.org/en-US/search?q='' @ key)"

definition polyfills :: "(string \<times> string) list" where
  "polyfills =
   [ (''dialog'', ''dialog-polyfill''),
     (''array-at'', ''array-at-polyfill''),
     (''container-queries'', ''@container-query-polyfill/postcss''),
     (''css-has'', ''css-has-pseudo'') ]"

definition getPolyfillInfo :: "string \<Rightarrow> string option" where
  "getPolyfillInfo key = map_of polyfills key"

definition fallbacks :: "(string \<times> string) list" where
  "fallbacks =
   [ (''dialog'', ''Modal div with ARIA attributes and focus management''),
     (''array-at'', ''array[array.length - 1] or array.slice(-1)[0]''),
     (''optional-chaining'', ''Manual null/undefined checks with &&''),
     (''container-queries'', ''Media queries with JavaScript ResizeObserver''),
     (''css-has'', ''JavaScript querySelector with event delegation'') ]"

definition getFallbackInfo :: "string \<Rightarrow> string" where
  "getFallbackInfo key =
     (case map_of fallbacks key of
        Some f \<Rightarrow> f
      | None \<Rightarrow> ''Feature-specific implementation required'')"

text \<open>\<open>normalizeFeatureData(webFeature, key)\<close>. It throws only where the pattern cannot be
  compiled. \<open>baseline?.low_date || null\<close> is \<open>null\<close> also for an empty date string.\<close>

definition normalizeFeatureData :: "host \<Rightarrow> web_feature \<Rightarrow> string \<Rightarrow> js_error + efeature" where
  "normalizeFeatureData h webFeature key =
     (let baselineStatus = getBaselineStatus h (wf_baseline webFeature)
      in case getDetectionPattern h key of
           Inl e \<Rightarrow> Inl e
         | Inr pat \<Rightarrow>
             Inr \<lparr> f_id = key,
                   f_pattern = pat,
                   f_name = wf_name webFeature,
                   f_status = baselineStatus,
                   f_baseline =
                     (case wf_baseline webFeature of
                        None \<Rightarrow> None
                      | Some b \<Rightarrow> if low_date b = [] then None else Some (low_date b)),
                   f_browsers = formatBrowserSupport (wf_support webFeature),
                   f_polyfill = getPolyfillInfo key,
                   f_fallback = Some (getFallbackInfo key),
                   f_mdn = getMDNLink key,
                   f_description = wf_description webFeature,
                   f_spec = wf_spec webFeature,
                   f_group = wf_group webFeature,
                   f_severity = getSeverity baselineStatus \<rparr>)"

subsection \<open>Loading the data\<close>

text \<open>
  Each of the four loaders is an \<open>async\<close> method without an \<open>await\<close>: called, it runs to
  its end, or to the statement that throws, and what it has stored by then stays stored.
  A loader is a function from the object to the object and the error that rejected its
  promise, if any. \<open>loadWebFeaturesData\<close> can throw where a pattern is compiled; the
  other three cannot.
\<close>

type_synonym loader = "EnhancedBaselineAnalyzer \<Rightarrow> EnhancedBaselineAnalyzer \<times> js_error option"

fun set_features ::
  "host \<Rightarrow> (string \<times> web_feature) list \<Rightarrow> EnhancedBaselineAnalyzer
     \<Rightarrow> EnhancedBaselineAnalyzer \<times> js_error option" where
  "set_features h [] this = (this, None)"
| "set_features h ((key, webFeature) # entries) this =
     (case normalizeFeatureData h webFeature key of
        Inl e \<Rightarrow> (this, Some e)
      | Inr f \<Rightarrow> set_features h entries (this\<lparr> efeatures := map_set key f (efeatures this) \<rparr>))"

definition loadWebFeaturesData :: "host \<Rightarrow> loader" where
  "loadWebFeaturesData h this = set_features h webFeaturesData this"

definition loadWebPlatformDashboardData :: loader where
  "loadWebPlatformDashboardData this =
     (foldl (\<lambda>t (key, data). t\<lparr> webPlatformData := map_set key data (webPlatformData t) \<rparr>)
        this dashboardData, None)"

definition loadPerformanceData :: loader where
  "loadPerformanceData this =
     (foldl (\<lambda>t (key, data). t\<lparr> performanceData := map_set key data (performanceData t) \<rparr>)
        this performanceData_literal, None)"

definition loadCommunityData :: loader where
  "loadCommunityData this =
     (foldl (\<lambda>t (key, data). t\<lparr> communityData := map_set key data (communityData t) \<rparr>)
        this communityData_literal, None)"

text \<open>\<open>loadLocalFeatureDatabase\<close> prints one line and has no other statement; its comment
  reads "This would contain the original feature database as backup".\<close>

definition loadLocalFeatureDatabase :: "EnhancedBaselineAnalyzer \<Rightarrow> EnhancedBaselineAnalyzer" where
  "loadLocalFeatureDatabase this =
     this\<lparr> console := console this @ [''Loading fallback feature database...''] \<rparr>"

text \<open>
  \<open>loadOfficialData\<close>: the four calls inside \<open>Promise.all([...])\<close> are made one after the
  other, each to its end; \<open>await\<close> then throws if one of the promises is rejected, and the
  \<open>catch\<close> block runs. \<open>loadOfficialData_with\<close> is the method with its four loaders as
  arguments, so that a loader whose source cannot be reached can take the place of one
  that reads a literal. (The printed lines are kept without their leading pictograph.)
\<close>

definition loadOfficialData_with ::
  "loader \<Rightarrow> loader \<Rightarrow> loader \<Rightarrow> loader \<Rightarrow> EnhancedBaselineAnalyzer \<Rightarrow> EnhancedBaselineAnalyzer" where
  "loadOfficialData_with l1 l2 l3 l4 this =
     (case l1 this of (this, e1) \<Rightarrow>
      case l2 this of (this, e2) \<Rightarrow>
      case l3 this of (this, e3) \<Rightarrow>
      case l4 this of (this, e4) \<Rightarrow>
        if e1 = None \<and> e2 = None \<and> e3 = None \<and> e4 = None
        then this\<lparr> isDataLoaded := True,
                   console := console this @ [''Official Baseline data loaded successfully''] \<rparr>
        else (let this = this\<lparr> console := console this @
                                  [''Could not load official data, falling back to local data:''] \<rparr>;
                  this = loadLocalFeatureDatabase this
              in this\<lparr> isDataLoaded := True \<rparr>))"

definition loadOfficialData :: "host \<Rightarrow> EnhancedBaselineAnalyzer \<Rightarrow> EnhancedBaselineAnalyzer" where
  "loadOfficialData h this =
     loadOfficialData_with (loadWebFeaturesData h) loadWebPlatformDashboardData
       loadPerformanceData loadCommunityData this"

definition empty_EnhancedBaselineAnalyzer :: EnhancedBaselineAnalyzer where
  "empty_EnhancedBaselineAnalyzer =
     \<lparr> efeatures = [], webPlatformData = [], performanceData = [], communityData = [],
       isDataLoaded = False, console = [] \<rparr>"

definition new_EnhancedBaselineAnalyzer :: "host \<Rightarrow> EnhancedBaselineAnalyzer" where
  "new_EnhancedBaselineAnalyzer h = loadOfficialData h empty_EnhancedBaselineAnalyzer"

subsection \<open>Scoring\<close>

text \<open>\<open>calculateAdvancedRiskScore\<close>: the body of its \<open>forEach\<close>, then the loop.
  \<open>baseScore *= usageMultiplier\<close> and \<open>score += baseScore\<close> are operations on doubles; of the
  three multipliers 1.5 and 1.0 are doubles, 0.8 is not.\<close>

definition advanced_risk_step :: "rat \<Rightarrow> 'a eissue_scheme \<Rightarrow> rat" where
  "advanced_risk_step score result =
     (let baseScore = severity_points (severity result);
          baseScore =
            (case usage result of
               None \<Rightarrow> baseScore
             | Some u \<Rightarrow>
                 (let usageMultiplier =
                        (if percentage (usage_stats u) < 20 then 15 / 10
                         else if percentage (usage_stats u) > 60 then to_double (8 / 10)
                         else 1)
                  in dmul baseScore usageMultiplier))
      in dadd score baseScore)"

definition calculateAdvancedRiskScore :: "('a eissue_scheme) list \<Rightarrow> rat" where
  "calculateAdvancedRiskScore results = min 100 (foldl advanced_risk_step 0 results)"

text \<open>\<open>parseInt\<close> of a string of decimal digits.\<close>

definition parseInt_digits :: "string \<Rightarrow> nat" where
  "parseInt_digits s = foldl (\<lambda>n c. 10 * n + (of_char c - 48)) 0 s"

text \<open>Group 1 of \<^verbatim>\<open>/\+?(\d+)KB/\<close> and of \<^verbatim>\<open>/(\d+)KB/\<close>: the match without the sign in front
  and the two letters at its end.\<close>

definition bundle_size_group :: "string \<Rightarrow> string option" where
  "bundle_size_group s =
     map_option (\<lambda>m. let m = (case m of c # cs \<Rightarrow> if c = CHR ''+'' then cs else m | [] \<Rightarrow> m)
                      in take (length m - 2) m)
       (js_match s \<lparr> source = seqs [Opt (lit ''+''), Plus digit_class, lit ''KB''],
                     ignoreCase = False \<rparr>)"

definition polyfill_size_group :: "string \<Rightarrow> string option" where
  "polyfill_size_group s =
     map_option (\<lambda>m. take (length m - 2) m)
       (js_match s \<lparr> source = seqs [Plus digit_class, lit ''KB''], ignoreCase = False \<rparr>)"

record performanceImpact =
  bundleSize :: string
  overall_impact :: string
  recommendation :: string

definition calculatePerformanceImpact :: "('a eissue_scheme) list \<Rightarrow> performanceImpact" where
  "calculatePerformanceImpact results =
     (case foldl (\<lambda>(totalBundleSize, overallImpact) result.
                    (case performance result of
                       None \<Rightarrow> (totalBundleSize, overallImpact)
                     | Some p \<Rightarrow>
                         ((case bundle_size_group (bundle_size p) of
                             None \<Rightarrow> totalBundleSize
                           | Some g \<Rightarrow> totalBundleSize + parseInt_digits g),
                          (if impact p = ''moderate'' \<and> overallImpact = ''minimal'' then ''moderate''
                           else if impact p = ''high'' then ''high''
                           else overallImpact))))
             (0, ''minimal'') results of
        (totalBundleSize, overallImpact) \<Rightarrow>
          \<lparr> bundleSize = string_of_nat totalBundleSize @ ''KB'',
            overall_impact = overallImpact,
            recommendation =
              (if totalBundleSize > 20 then ''Consider lazy loading'' else ''Acceptable overhead'') \<rparr>)"

text \<open>\<open>Math.round\<close> rounds to the nearest integer, a half upwards.\<close>

definition Math_round :: "rat \<Rightarrow> int" where
  "Math_round x = \<lfloor>x + 1 / 2\<rfloor>"

definition calculateAdoptionScore :: "('a eissue_scheme) list \<Rightarrow> int" where
  "calculateAdoptionScore results =
     (if length results = 0 then 100
      else
        (let totalScore =
               foldl (\<lambda>totalScore result.
                        (case community result of
                           Some c \<Rightarrow>
                             (let rating = (if rating c = 0 then 3 else rating c);
                                  votes = min (rat_of_nat (votes c)) 1000
                              in dadd totalScore
                                   (dmul (dmul (ddiv rating 5) 100)
                                      (dadd (ddiv votes 1000) (to_double (1 / 10)))))
                         | None \<Rightarrow> dadd totalScore 70))
                 0 results
         in Math_round (ddiv totalScore (rat_of_nat (length results)))))"

text \<open>\<open>generateAdvancedSuggestions\<close>. It counts the errors and the warnings as
  \<open>generateSuggestions\<close> does, and then does not read the two counts.\<close>

definition generateAdvancedSuggestions :: "('a eissue_scheme) list \<Rightarrow> suggestion list" where
  "generateAdvancedSuggestions results =
     (let suggestions = [];
          errorCount = length (filter (\<lambda>r. severity r = ''error'') results);
          warningCount = length (filter (\<lambda>r. severity r = ''warning'') results);
          totalPolyfillSize =
            foldl (\<lambda>total result.
                     (case performance result of
                        None \<Rightarrow> total
                      | Some p \<Rightarrow>
                          if polyfill_size p \<noteq> []
                          then total + (case polyfill_size_group (polyfill_size p) of
                                          None \<Rightarrow> 0
                                        | Some g \<Rightarrow> parseInt_digits g)
                          else total))
              0 results;
          suggestions =
            (if totalPolyfillSize > 30
             then suggestions @
               [\<lparr> kind = ''performance'',
                  message = ''Polyfills would add '' @ string_of_nat totalPolyfillSize @
                            ''KB to your bundle'',
                  action = ''Consider feature detection and progressive enhancement'' \<rparr>]
             else suggestions);
          lowRatedFeatures =
            filter (\<lambda>r. case community r of None \<Rightarrow> False | Some c \<Rightarrow> rating c < 35 / 10) results;
          suggestions =
            (if length lowRatedFeatures > 0
             then suggestions @
               [\<lparr> kind = ''community'',
                  message = string_of_nat (length lowRatedFeatures) @
                            '' features have mixed community feedback'',
                  action = ''Review community concerns and alternative approaches'' \<rparr>]
             else suggestions);
          decliningFeatures =
            filter (\<lambda>r. case usage r of None \<Rightarrow> False
                         | Some u \<Rightarrow> trend (usage_stats u) = ''decreasing'') results;
          suggestions =
            (if length decliningFeatures > 0
             then suggestions @
               [\<lparr> kind = ''trend'',
                  message = string_of_nat (length decliningFeatures) @
                            '' features show declining usage'',
                  action = ''Consider more popular alternatives'' \<rparr>]
             else suggestions)
      in suggestions)"

record esummary = summary +
  performanceImpact :: performanceImpact
  adoptionScore :: int

record emetadata = metadata +
  dataVersion :: string
  officialData :: bool

record eanalysis =
  esummary :: esummary
  eissues :: "eissue list"
  esuggestions :: "suggestion list"
  emetadata :: emetadata

definition enhanced_enrichResults ::
  "EnhancedBaselineAnalyzer \<Rightarrow> eissue list \<Rightarrow> string \<Rightarrow> eanalysis" where
  "enhanced_enrichResults this results code_text =
     (let riskScore = calculateAdvancedRiskScore results;
          grouped = groupBySeverity results;
          suggestions = generateAdvancedSuggestions results;
          performanceImpact = calculatePerformanceImpact results
      in \<lparr> esummary =
             \<lparr> total = length results,
               riskScore = riskScore,
               riskLevel = getRiskLevel riskScore,
               breakdown = grouped,
               compatibilityScore = max 0 (dsub 100 riskScore),
               performanceImpact = performanceImpact,
               adoptionScore = calculateAdoptionScore results \<rparr>,
           eissues = results,
           esuggestions = suggestions,
           emetadata =
             \<lparr> linesOfCode = length (js_split CHR 0x0A code_text),
               charactersCount = length code_text,
               dataVersion = ''2024.1'',
               officialData = isDataLoaded this \<rparr> \<rparr>)"

subsection \<open>The matching pass\<close>

definition enhanced_scan_line ::
  "EnhancedBaselineAnalyzer \<Rightarrow> string \<Rightarrow> efeature \<Rightarrow> eissue list \<Rightarrow> nat \<times> string \<Rightarrow> eissue list" where
  "enhanced_scan_line this fid feature results il =
     (case il of (lineIndex, line_text) \<Rightarrow>
        (case js_match line_text (f_pattern feature) of
           None \<Rightarrow> results
         | Some m0 \<Rightarrow>
             results @
             [\<lparr> issue_id = fid,
                feature_name = f_name feature,
                line = lineIndex + 1,
                column = indexOf line_text m0 + 1,
                code = trim line_text,
                status = f_status feature,
                baseline = f_baseline feature,
                browsers = f_browsers feature,
                polyfill = f_polyfill feature,
                fallback = f_fallback feature,
                mdn = f_mdn feature,
                severity = f_severity feature,
                matchedText = m0,
                description = f_description feature,
                spec = f_spec feature,
                group = f_group feature,
                usage = map_of (webPlatformData this) fid,
                performance = map_of (performanceData this) fid,
                community = map_of (communityData this) fid \<rparr>]))"

text \<open>\<open>analyzeCode\<close> of the enhanced class. Where the flag \<open>isDataLoaded\<close> is not set it
  first waits 100 ms, which changes nothing that the method reads afterwards.\<close>

definition enhanced_analyzeCode ::
  "EnhancedBaselineAnalyzer \<Rightarrow> js_value \<Rightarrow> js_value \<Rightarrow> js_error + eanalysis" where
  "enhanced_analyzeCode this code_arg language =
     (case code_arg of
        JString code_text \<Rightarrow>
          (let results = [];
               lines = js_split CHR 0x0A code_text;
               results =
                 foldl (\<lambda>results (fid, feature).
                          foldl (enhanced_scan_line this fid feature) results (enumerate 0 lines))
                   results (efeatures this)
           in Inr (enhanced_enrichResults this results code_text))
      | _ \<Rightarrow> Inl TypeError)"

subsection \<open>A host for the examples\<close>

text \<open>
  \<open>iso_date\<close> reads the date-only ISO form \<open>YYYY-MM-DD\<close>, all the data uses, as midnight
  UTC; \<open>compile_plain\<close> is the constructor of regular expressions on the source texts
  that consist of letters, digits and hyphens, each of which matches itself.
\<close>

definition days_from_civil :: "int \<Rightarrow> int \<Rightarrow> int \<Rightarrow> int" where
  "days_from_civil y0 m d =
     (let y = (if m \<le> 2 then y0 - 1 else y0);
          era = y div 400;
          yoe = y - era * 400;
          doy = (153 * (if m > 2 then m - 3 else m + 9) + 2) div 5 + d - 1;
          doe = yoe * 365 + yoe div 4 - yoe div 100 + doy
      in era * 146097 + doe - 719468)"

definition is_digit :: "char \<Rightarrow> bool" where
  "is_digit c = (48 \<le> (of_char c :: nat) \<and> (of_char c :: nat) \<le> 57)"

definition days_in_month :: "int \<Rightarrow> int \<Rightarrow> int" where
  "days_in_month y m =
     (if m = 2 then (if y mod 4 = 0 \<and> (y mod 100 \<noteq> 0 \<or> y mod 400 = 0) then 29 else 28)
      else if m = 4 \<or> m = 6 \<or> m = 9 \<or> m = 11 then 30 else 31)"

definition iso_date :: "string \<Rightarrow> int option" where
  "iso_date s =
     (if length s = 10 \<and> s ! 4 = CHR ''-'' \<and> s ! 7 = CHR ''-''
         \<and> list_all is_digit (take 4 s) \<and> list_all is_digit (take 2 (drop 5 s))
         \<and> list_all is_digit (drop 8 s)
      then (let y = int (parseInt_digits (take 4 s));
                m = int (parseInt_digits (take 2 (drop 5 s)));
                d = int (parseInt_digits (drop 8 s))
            in if 1 \<le> m \<and> m \<le> 12 \<and> 1 \<le> d \<and> d \<le> days_in_month y m
               then Some (days_from_civil y m d * 86400000) else None)
      else None)"

definition compile_plain :: "string \<Rightarrow> js_error + regex" where
  "compile_plain key =
     (if list_all (\<lambda>c. is_digit c \<or> c = CHR ''-''
                        \<or> (65 \<le> (of_char c :: nat) \<and> (of_char c :: nat) \<le> 90)
                        \<or> (97 \<le> (of_char c :: nat) \<and> (of_char c :: nat) \<le> 122)) key
      then Inr (lit key) else Inl SyntaxError)"

definition host_at :: "int \<Rightarrow> host" where
  "host_at t = \<lparr> now = t, Date_parse = iso_date, RegExp_new = compile_plain \<rparr>"

section \<open>The specification's vocabulary\<close>

text \<open>
  The definitions of this section follow the words of the specification, so that the
  methods above can be compared with them.

  The scoring rule of the specification: a base score per severity (a table with three
  entries) times a usage multiplier, which is 1 unless usage data is present.
\<close>

definition spec_baseScore :: "string \<Rightarrow> rat option" where
  "spec_baseScore = map_of [(''error'', 15), (''warning'', 5), (''info'', 1)]"

definition spec_usageMultiplier :: "usage option \<Rightarrow> rat" where
  "spec_usageMultiplier u =
     (case u of
        None \<Rightarrow> 1
      | Some d \<Rightarrow>
          if percentage (usage_stats d) < 20 then 15 / 10
          else if percentage (usage_stats d) > 60 then 8 / 10
          else 1)"

text \<open>The order of the issues: "catalog iteration order \<open>\<times>\<close> line order". \<open>found\<close> lists,
  for each feature in turn, what each line in turn contributes on its own.\<close>

definition found :: "(string \<times> feature) list \<Rightarrow> string list \<Rightarrow> issue list" where
  "found fs lines =
     concat (map (\<lambda>(fid, feature). concat (map (scan_line fid feature []) (enumerate 0 lines))) fs)"

definition enhanced_found :: "EnhancedBaselineAnalyzer \<Rightarrow> string list \<Rightarrow> eissue list" where
  "enhanced_found this lines =
     concat (map (\<lambda>(fid, feature).
                    concat (map (enhanced_scan_line this fid feature []) (enumerate 0 lines)))
               (efeatures this))"

text \<open>The four availability tiers, and the fixed table from tier to severity.\<close>

definition statuses :: "string list" where
  "statuses = [''widely-available'', ''newly-available'', ''limited'', ''unsupported'']"

definition spec_severity :: "(string \<times> string) list" where
  "spec_severity =
     [(''widely-available'', ''info''), (''newly-available'', ''warning''),
      (''limited'', ''warning''), (''unsupported'', ''error'')]"

text \<open>An occurrence of which only the severity and the polyfill name are of interest.\<close>

definition sample_issue :: "string \<Rightarrow> string option \<Rightarrow> issue" where
  "sample_issue sev poly =
     \<lparr> issue_id = [], feature_name = [], line = 1, column = 1, code = [], status = [],
       baseline = None, browsers = [], polyfill = poly, fallback = None, mdn = [],
       severity = sev, matchedText = [] \<rparr>"

text \<open>
  How often a pattern matches in a line, counted as a search with the flag \<^verbatim>\<open>g\<close> counts:
  the leftmost match, then the leftmost match after its end (one character further on after
  an empty match), and so on. A line of \<open>n\<close> characters has at most \<open>n + 1\<close> such matches,
  which is the bound of the recursion.
\<close>

primrec matches_upto :: "nat \<Rightarrow> regexp \<Rightarrow> string \<Rightarrow> string list" where
  "matches_upto 0 p s = []"
| "matches_upto (Suc n) p s =
     (case exec_from 0 p s of
        None \<Rightarrow> []
      | Some (i, m) \<Rightarrow>
          m # (if i + max 1 (length m) \<le> length s
               then matches_upto n p (drop (i + max 1 (length m)) s)
               else []))"

definition global_matches :: "regexp \<Rightarrow> string \<Rightarrow> string list" where
  "global_matches p s = matches_upto (Suc (length s)) p s"


text \<open>The risk score as the specification writes it, in exact arithmetic; and the sum of a
  list of doubles formed from left to right, each addition rounded.\<close>

definition spec_riskScore :: "('a eissue_scheme) list \<Rightarrow> rat" where
  "spec_riskScore results =
     min 100 (\<Sum>r\<leftarrow>results. the (spec_baseScore (severity r)) * spec_usageMultiplier (usage r))"

definition double_sum :: "rat list \<Rightarrow> rat" where
  "double_sum xs = foldl dadd 0 xs"

section \<open>Properties\<close>

subsection \<open>Rounding to a double\<close>



lemma ilog2_nonneg: "0 \<le> ilog2 n"
  by (induction n rule: ilog2.induct) (subst ilog2.simps, simp)

lemma ilog2_bounds:
  "1 \<le> n \<Longrightarrow> 2 ^ nat (ilog2 n) \<le> n \<and> n < 2 ^ nat (ilog2 n + 1)"
proof (induction n rule: ilog2.induct)
  case (1 n)
  show ?case
  proof (cases "n \<le> 1")
    case True
    with "1.prems" have "n = 1" by simp
    then show ?thesis by (subst (1 2) ilog2.simps) simp
  next
    case False
    then have h: "1 \<le> n div 2" by simp
    from "1.IH" [OF False h]
    have lo: "2 ^ nat (ilog2 (n div 2)) \<le> n div 2"
      and hi: "n div 2 < 2 ^ nat (ilog2 (n div 2) + 1)" by simp_all
    have e: "ilog2 n = 1 + ilog2 (n div 2)"
      using False by (subst ilog2.simps) simp
    have n1: "nat (1 + ilog2 (n div 2)) = Suc (nat (ilog2 (n div 2)))"
      using ilog2_nonneg [of "n div 2"] by simp
    have n2: "nat (1 + ilog2 (n div 2) + 1) = Suc (Suc (nat (ilog2 (n div 2))))"
      using ilog2_nonneg [of "n div 2"] by simp
    have n3: "nat (ilog2 (n div 2) + 1) = Suc (nat (ilog2 (n div 2)))"
      using ilog2_nonneg [of "n div 2"] by simp
    from lo have "2 * 2 ^ nat (ilog2 (n div 2)) \<le> n" by simp
    moreover from hi have "n < 2 * (2 * 2 ^ nat (ilog2 (n div 2)))"
      unfolding n3 by simp
    ultimately show ?thesis
      unfolding e n1 n2 by simp
  qed
qed


lemma binary_exponent_less:
  assumes "0 < x"
  shows "x < pow2 (binary_exponent x + 1)"
proof (cases "1 \<le> x")
  case True
  then have n: "1 \<le> \<lfloor>x\<rfloor>" by simp
  from ilog2_bounds [OF n] have "\<lfloor>x\<rfloor> + 1 \<le> 2 ^ nat (ilog2 \<lfloor>x\<rfloor> + 1)" by simp
  then have "of_int (\<lfloor>x\<rfloor> + 1) \<le> (of_int ((2::int) ^ nat (ilog2 \<lfloor>x\<rfloor> + 1)) :: rat)"
    by (simp only: of_int_le_iff)
  moreover have "x < of_int (\<lfloor>x\<rfloor> + 1)" by linarith
  ultimately have "x < 2 ^ nat (ilog2 \<lfloor>x\<rfloor> + 1)" by simp
  then show ?thesis
    using True ilog2_nonneg [of "\<lfloor>x\<rfloor>"] by (simp add: binary_exponent_def pow2_def)
next
  case False
  let ?n = "\<lceil>1 / x\<rceil> - 1"
  let ?k = "nat (ilog2 ?n)"
  from False assms have "1 < 1 / x" by simp
  then have n: "1 \<le> ?n" by (simp add: less_ceiling_iff)
  from ilog2_bounds [OF n] have "2 ^ ?k \<le> ?n" by simp
  then have "of_int ((2::int) ^ ?k) \<le> (of_int ?n :: rat)" by (simp only: of_int_le_iff)
  moreover have "of_int ?n < 1 / x" by linarith
  ultimately have "(2::rat) ^ ?k < 1 / x" by simp
  then have "2 ^ ?k * x < 1"
    using assms by (simp add: pos_less_divide_eq)
  then have lt: "x < 1 / 2 ^ ?k"
    by (simp add: pos_less_divide_eq mult.commute)
  have e: "binary_exponent x + 1 = - ilog2 ?n"
    using False by (simp add: binary_exponent_def)
  show ?thesis
  proof (cases "ilog2 ?n = 0")
    case True
    with lt show ?thesis unfolding e by (simp add: pow2_def)
  next
    case False
    with ilog2_nonneg [of ?n] have "\<not> 0 \<le> - ilog2 ?n" by simp
    with lt show ?thesis unfolding e by (simp add: pow2_def)
  qed
qed










lemma to_double_exact:
  "to_double 1 = 1" "to_double 5 = 5" "to_double 15 = 15" "to_double (15 / 10) = 15 / 10"
  "to_double (3 / 2) = 3 / 2" "to_double 100 = 100"
  by code_simp+

subsection \<open>The scoring loops as sums\<close>

lemma foldl_add_sum_list:
  fixes a :: rat
  shows "foldl (\<lambda>score x. score + f x) a xs = a + sum_list (map f xs)"
  by (induction xs arbitrary: a) (simp_all add: add.assoc)

lemma severity_points_nonneg: "0 \<le> severity_points sev"
  by (simp add: severity_points_def)

lemma calculateRiskScore_sum:
  "calculateRiskScore results = min 100 (\<Sum>r\<leftarrow>results. severity_points (severity r))"
  by (simp add: calculateRiskScore_def foldl_add_sum_list)


lemma to_double_severity_points: "to_double (severity_points sev) = severity_points sev"
  by (simp add: severity_points_def to_double_exact) (simp add: to_double_def)

lemma advanced_risk_step_eq:
  "advanced_risk_step score r =
     dadd score (dmul (severity_points (severity r)) (to_double (spec_usageMultiplier (usage r))))"
proof (cases "usage r")
  case None
  then show ?thesis
    by (simp add: advanced_risk_step_def spec_usageMultiplier_def Let_def dmul_def
        to_double_exact to_double_severity_points)
next
  case (Some u)
  then show ?thesis
    by (simp add: advanced_risk_step_def spec_usageMultiplier_def Let_def to_double_exact)
qed


lemma calculateAdvancedRiskScore_sum:
  "calculateAdvancedRiskScore results =
     min 100 (double_sum (map (\<lambda>r. dmul (severity_points (severity r))
                                      (to_double (spec_usageMultiplier (usage r)))) results))"
proof -
  have "foldl advanced_risk_step a results =
          foldl dadd a (map (\<lambda>r. dmul (severity_points (severity r))
                                    (to_double (spec_usageMultiplier (usage r)))) results)" for a
    by (induction results arbitrary: a) (simp_all add: advanced_risk_step_eq)
  then show ?thesis
    by (simp add: calculateAdvancedRiskScore_def double_sum_def)
qed



subsection \<open>The two loops of the matching pass\<close>

lemma scan_line_append: "scan_line fid f acc il = acc @ scan_line fid f [] il"
  by (simp add: scan_line_def split: prod.splits option.splits)

lemma foldl_scan_line:
  "foldl (scan_line fid f) acc ps = acc @ concat (map (scan_line fid f []) ps)"
proof (induction ps arbitrary: acc)
  case Nil
  show ?case by simp
next
  case (Cons p ps)
  show ?case
    by (simp add: Cons.IH) (subst scan_line_append, simp)
qed

lemma foldl_features:
  "foldl (\<lambda>results (fid, feature). foldl (scan_line fid feature) results ps) acc fs =
     acc @ found_from fs"
  if "\<And>fs. found_from fs =
        concat (map (\<lambda>(fid, feature). concat (map (scan_line fid feature []) ps)) fs)"
  by (induction fs arbitrary: acc) (auto simp: that foldl_scan_line)

lemma analyzeCode_string:
  "analyzeCode this (JString t) language =
     Inr (enrichResults (found (features this) (js_split CHR 0x0A t)) t)"
proof -
  let ?ps = "enumerate 0 (js_split CHR 0x0A t)"
  have "foldl (\<lambda>results (fid, feature). foldl (scan_line fid feature) results ?ps) []
          (features this) = [] @ found (features this) (js_split CHR 0x0A t)"
    by (rule foldl_features) (simp add: found_def)
  then show ?thesis
    by (simp add: analyzeCode_def Let_def)
qed

lemma enhanced_scan_line_append:
  "enhanced_scan_line this fid f acc il = acc @ enhanced_scan_line this fid f [] il"
  by (simp add: enhanced_scan_line_def split: prod.splits option.splits)

lemma foldl_enhanced_scan_line:
  "foldl (enhanced_scan_line this fid f) acc ps =
     acc @ concat (map (enhanced_scan_line this fid f []) ps)"
proof (induction ps arbitrary: acc)
  case Nil
  show ?case by simp
next
  case (Cons p ps)
  show ?case
    by (simp add: Cons.IH) (subst enhanced_scan_line_append, simp)
qed

lemma foldl_efeatures:
  "foldl (\<lambda>results (fid, feature). foldl (enhanced_scan_line this fid feature) results ps) acc fs =
     acc @ concat (map (\<lambda>(fid, feature). concat (map (enhanced_scan_line this fid feature []) ps)) fs)"
  by (induction fs arbitrary: acc) (auto simp: foldl_enhanced_scan_line)

lemma enhanced_analyzeCode_string:
  "enhanced_analyzeCode this (JString t) language =
     Inr (enhanced_enrichResults this (enhanced_found this (js_split CHR 0x0A t)) t)"
  by (simp add: enhanced_analyzeCode_def Let_def foldl_efeatures enhanced_found_def)

lemma enrichResults_fields:
  "riskScore (summary (enrichResults results t)) = calculateRiskScore results"
  "compatibilityScore (summary (enrichResults results t)) = max 0 (100 - calculateRiskScore results)"
  "riskLevel (summary (enrichResults results t)) = getRiskLevel (calculateRiskScore results)"
  "total (summary (enrichResults results t)) = length results"
  "issues (enrichResults results t) = results"
  "suggestions (enrichResults results t) = generateSuggestions results"
  "linesOfCode (metadata (enrichResults results t)) = length (js_split CHR 0x0A t)"
  "charactersCount (metadata (enrichResults results t)) = length t"
  by (simp_all add: enrichResults_def Let_def)

lemma enhanced_enrichResults_fields:
  "riskScore (esummary (enhanced_enrichResults this results t)) = calculateAdvancedRiskScore results"
  "compatibilityScore (esummary (enhanced_enrichResults this results t)) =
     max 0 (dsub 100 (calculateAdvancedRiskScore results))"
  "riskLevel (esummary (enhanced_enrichResults this results t)) =
     getRiskLevel (calculateAdvancedRiskScore results)"
  "eissues (enhanced_enrichResults this results t) = results"
  by (simp_all add: enhanced_enrichResults_def Let_def)

subsection \<open>Compatibility score\<close>


subsection \<open>Risk level\<close>

text \<open>
  Claim C5. For every risk score \<open>s\<close> the level is \<open>high\<close> exactly when \<open>s \<ge> 40\<close>,
  \<open>medium\<close> exactly when \<open>15 \<le> s < 40\<close> and \<open>low\<close> exactly when \<open>s < 15\<close>; the boundary
  values 40 and 15 belong to the higher tier. (\<open>getRiskLevel\<close> has the same text in both
  classes.)
\<close>

theorem getRiskLevel_tiers:
  "(getRiskLevel s = ''high'') = (s \<ge> 40) \<and>
   (getRiskLevel s = ''medium'') = (15 \<le> s \<and> s < 40) \<and>
   (getRiskLevel s = ''low'') = (s < 15) \<and>
   getRiskLevel 40 = ''high'' \<and> getRiskLevel 15 = ''medium''"
  by (simp add: getRiskLevel_def)

subsection \<open>Risk score\<close>

lemma severity_points_spec:
  "sev \<in> dom spec_baseScore \<Longrightarrow> severity_points sev = the (spec_baseScore sev)"
  by (auto simp: spec_baseScore_def severity_points_def dom_def split: if_splits)

text \<open>
  Claim C2, amended. For every list of occurrences whose severities are among \<open>error\<close>,
  \<open>warning\<close> and \<open>info\<close>: in \<open>BaselineAnalyzer\<close> the risk score is
  \<open>min(100, \<Sum> baseScore(severity) \<times> 1)\<close>, exactly (it has no usage data and all its terms
  are integers). In \<open>EnhancedBaselineAnalyzer\<close> it is \<open>min(100, s)\<close>, where \<open>s\<close> is the sum
  formed from left to right in double arithmetic of the products
  \<open>baseScore(severity) \<times> usageMultiplier\<close>, each product rounded to a double; the multiplier
  is the double of 1.5 below 20 percent adoption, of 0.8 above 60 percent and of 1 otherwise
  or without usage data.
\<close>

theorem riskScore_is_capped_rounded_sum:
  fixes results :: "('a issue_scheme) list" and eresults :: "('b eissue_scheme) list"
  assumes "\<forall>r\<in>set results. severity r \<in> dom spec_baseScore"
      and "\<forall>r\<in>set eresults. severity r \<in> dom spec_baseScore"
  shows "calculateRiskScore results =
           min 100 (\<Sum>r\<leftarrow>results. the (spec_baseScore (severity r)) * 1) \<and>
         calculateAdvancedRiskScore eresults =
           min 100 (double_sum
                      (map (\<lambda>r. dmul (the (spec_baseScore (severity r)))
                                  (to_double (spec_usageMultiplier (usage r)))) eresults))"
proof -
  have "map (\<lambda>r. severity_points (severity r)) results =
        map (\<lambda>r. the (spec_baseScore (severity r)) * 1) results"
    using assms(1) by (simp add: severity_points_spec)
  moreover have
    "map (\<lambda>r. dmul (severity_points (severity r)) (to_double (spec_usageMultiplier (usage r))))
       eresults =
     map (\<lambda>r. dmul (the (spec_baseScore (severity r))) (to_double (spec_usageMultiplier (usage r))))
       eresults"
    using assms(2) by (simp add: severity_points_spec)
  ultimately show ?thesis
    by (simp only: calculateRiskScore_sum calculateAdvancedRiskScore_sum)
qed

theorem riskScore_is_capped_rounded_sum_witness:
  "map severity (found (features new_BaselineAnalyzer) [''Temporal.x'', ''a?.b'']) = [''info'', ''error''] \<and>
   calculateRiskScore (found (features new_BaselineAnalyzer) [''Temporal.x'', ''a?.b'']) = 16 \<and>
   map (\<lambda>r. (severity r, map_option (\<lambda>u. percentage (usage_stats u)) (usage r)))
     (enhanced_found (new_EnhancedBaselineAnalyzer (host_at 1700000000000)) [''a?.b'', ''<dialog>''])
     = [(''warning'', Some (25 / 2)), (''info'', Some (5502835794693325 / 70368744177664))] \<and>
   calculateAdvancedRiskScore
     (enhanced_found (new_EnhancedBaselineAnalyzer (host_at 1700000000000)) [''a?.b'', ''<dialog>''])
     = 2336242306698445 / 281474976710656"
proof -
  let ?R = "found (features new_BaselineAnalyzer) [''Temporal.x'', ''a?.b'']"
  let ?E = "enhanced_found (new_EnhancedBaselineAnalyzer (host_at 1700000000000)) [''a?.b'', ''<dialog>'']"
  let ?proj = "\<lambda>r :: eissue. (severity r, map_option (\<lambda>u. percentage (usage_stats u)) (usage r))"
  have s: "map severity ?R = [''info'', ''error'']"
    by code_simp
  have e: "map ?proj ?E
             = [(''warning'', Some (25 / 2)), (''info'', Some (5502835794693325 / 70368744177664))]"
    by code_simp
  have d: "dom spec_baseScore = {''error'', ''warning'', ''info''}"
    by (auto simp: spec_baseScore_def dom_def split: if_splits)
  have h1: "\<forall>r\<in>set ?R. severity r \<in> dom spec_baseScore"
  proof
    fix r assume "r \<in> set ?R"
    then have "severity r \<in> set (map severity ?R)" by simp
    then show "severity r \<in> dom spec_baseScore" unfolding s d by auto
  qed
  have h2: "\<forall>r\<in>set ?E. severity r \<in> dom spec_baseScore"
  proof
    fix r assume "r \<in> set ?E"
    then have "?proj r \<in> set (map ?proj ?E)"
      by simp
    then show "severity r \<in> dom spec_baseScore" unfolding e d by auto
  qed
  define g :: "string \<times> rat option \<Rightarrow> rat" where
    "g = (\<lambda>(sev, p). dmul (the (spec_baseScore sev))
            (to_double (case p of None \<Rightarrow> 1
                        | Some x \<Rightarrow> if x < 20 then 15 / 10 else if x > 60 then 8 / 10 else 1)))"
  have c1: "(\<Sum>r\<leftarrow>?R. the (spec_baseScore (severity r)) * 1) =
            (\<Sum>x\<leftarrow>map severity ?R. the (spec_baseScore x) * 1)"
    by (simp add: comp_def)
  have v1: "(\<Sum>r\<leftarrow>?R. the (spec_baseScore (severity r)) * 1) = 16"
    unfolding c1 s by (simp add: spec_baseScore_def)
  have "dmul (the (spec_baseScore (severity r))) (to_double (spec_usageMultiplier (usage r))) =
        g (?proj r)" for r :: eissue
    by (simp add: g_def spec_usageMultiplier_def split: option.splits)
  then have c2: "map (\<lambda>r. dmul (the (spec_baseScore (severity r)))
                            (to_double (spec_usageMultiplier (usage r)))) ?E =
                 map g (map ?proj ?E)"
    by (simp add: comp_def)
  have v2: "min 100 (double_sum (map g
        [(''warning'', Some (25 / 2)), (''info'', Some (5502835794693325 / 70368744177664))]))
        = 2336242306698445 / 281474976710656"
    unfolding g_def by code_simp
  note T = riskScore_is_capped_rounded_sum [OF h1 h2]
  from T have "calculateRiskScore ?R = min 100 (\<Sum>r\<leftarrow>?R. the (spec_baseScore (severity r)) * 1)"
    by (rule conjunct1)
  then have r1: "calculateRiskScore ?R = 16"
    unfolding v1 by simp
  from T have "calculateAdvancedRiskScore ?E =
      min 100 (double_sum (map (\<lambda>r. dmul (the (spec_baseScore (severity r)))
                                  (to_double (spec_usageMultiplier (usage r)))) ?E))"
    by (rule conjunct2)
  then have r2: "calculateAdvancedRiskScore ?E = 2336242306698445 / 281474976710656"
    unfolding c2 e v2 .
  show ?thesis
    by (intro conjI s r1 e r2)
qed

text \<open>
  As the claim states it, with the sum in exact arithmetic, the equation fails in
  \<open>EnhancedBaselineAnalyzer\<close>: three lines \<open>a?.b\<close> give three occurrences of severity
  \<open>info\<close> with 78.2 percent adoption, for which the claim's sum is 2.4 and the method returns
  2.4000000000000004.
\<close>

theorem riskScore_exact_sum_counterexample:
  "map severity
     (enhanced_found (new_EnhancedBaselineAnalyzer (host_at 1700000000000))
        [''a?.b'', ''a?.b'', ''a?.b'']) = [''info'', ''info'', ''info''] \<and>
   calculateAdvancedRiskScore
     (enhanced_found (new_EnhancedBaselineAnalyzer (host_at 1700000000000))
        [''a?.b'', ''a?.b'', ''a?.b'']) = 1351079888211149 / 562949953421312 \<and>
   spec_riskScore
     (enhanced_found (new_EnhancedBaselineAnalyzer (host_at 1700000000000))
        [''a?.b'', ''a?.b'', ''a?.b'']) = 24 / 10 \<and>
   calculateAdvancedRiskScore
     (enhanced_found (new_EnhancedBaselineAnalyzer (host_at 1700000000000))
        [''a?.b'', ''a?.b'', ''a?.b''])
   \<noteq> spec_riskScore
     (enhanced_found (new_EnhancedBaselineAnalyzer (host_at 1700000000000))
        [''a?.b'', ''a?.b'', ''a?.b'']) \<and>
   enhanced_analyzeCode (new_EnhancedBaselineAnalyzer (host_at 1700000000000))
     (JString (''a?.b'' @ CHR 0x0A # ''a?.b'' @ CHR 0x0A # ''a?.b'')) Undefined =
     Inr (enhanced_enrichResults (new_EnhancedBaselineAnalyzer (host_at 1700000000000))
            (enhanced_found (new_EnhancedBaselineAnalyzer (host_at 1700000000000))
               [''a?.b'', ''a?.b'', ''a?.b''])
            (''a?.b'' @ CHR 0x0A # ''a?.b'' @ CHR 0x0A # ''a?.b''))"
proof -
  let ?A = "new_EnhancedBaselineAnalyzer (host_at 1700000000000)"
  let ?R = "enhanced_found ?A [''a?.b'', ''a?.b'', ''a?.b'']"
  let ?t = "''a?.b'' @ CHR 0x0A # ''a?.b'' @ CHR 0x0A # ''a?.b''"
  have s: "map severity ?R = [''info'', ''info'', ''info'']" by code_simp
  have c: "calculateAdvancedRiskScore ?R = 1351079888211149 / 562949953421312" by code_simp
  have x: "spec_riskScore ?R = 24 / 10" by code_simp
  have n: "calculateAdvancedRiskScore ?R \<noteq> spec_riskScore ?R"
    unfolding c x by simp
  have l: "js_split CHR 0x0A ?t = [''a?.b'', ''a?.b'', ''a?.b'']" by simp
  have a: "enhanced_analyzeCode ?A (JString ?t) Undefined =
             Inr (enhanced_enrichResults ?A ?R ?t)"
    unfolding enhanced_analyzeCode_string l by (rule refl)
  show ?thesis
    by (intro conjI s c x n a)
qed

subsection \<open>Severity\<close>

lemma getSeverity_table:
  "getSeverity ''widely-available'' = ''info''"
  "getSeverity ''newly-available'' = ''warning''"
  "getSeverity ''limited'' = ''warning''"
  "getSeverity ''unsupported'' = ''error''"
  by (simp_all add: getSeverity_def severityMap_def)

lemma scan_line_fields:
  "r \<in> set (scan_line fid f [] il) \<Longrightarrow>
     issue_id r = fid \<and> status r = f_status f \<and> severity r = getSeverity (f_status f) \<and>
     line r = fst il + 1 \<and> polyfill r = f_polyfill f \<and>
     js_match (snd il) (f_pattern f) = Some (matchedText r)"
  by (auto simp: scan_line_def split: prod.splits option.splits)

lemma found_fields:
  assumes "r \<in> set (found fs lines)"
  shows "\<exists>f. (issue_id r, f) \<in> set fs \<and> status r = f_status f \<and>
             severity r = getSeverity (f_status f)"
proof -
  from assms obtain fid f il where "(fid, f) \<in> set fs" "r \<in> set (scan_line fid f [] il)"
    by (auto simp: found_def)
  then show ?thesis
    using scan_line_fields [of r fid f il] by auto
qed

lemma enhanced_scan_line_fields:
  "r \<in> set (enhanced_scan_line this fid f [] il) \<Longrightarrow>
     issue_id r = fid \<and> status r = f_status f \<and> severity r = f_severity f \<and>
     line r = fst il + 1 \<and> usage r = map_of (webPlatformData this) fid \<and>
     js_match (snd il) (f_pattern f) = Some (matchedText r)"
  by (auto simp: enhanced_scan_line_def split: prod.splits option.splits)

lemma enhanced_found_fields:
  assumes "r \<in> set (enhanced_found this lines)"
  shows "\<exists>f. (issue_id r, f) \<in> set (efeatures this) \<and> status r = f_status f \<and>
             severity r = f_severity f"
proof -
  from assms obtain fid f il where
    "(fid, f) \<in> set (efeatures this)" "r \<in> set (enhanced_scan_line this fid f [] il)"
    by (auto simp: enhanced_found_def)
  then show ?thesis
    using enhanced_scan_line_fields [of r this fid f il] by auto
qed

lemma getBaselineStatus_range: "getBaselineStatus h b \<in> set statuses"
  by (simp add: getBaselineStatus_def statuses_def Let_def split: option.splits)

lemma catalog_statuses:
  "list_all (\<lambda>(fid, f). f_status f \<in> set statuses) (features new_BaselineAnalyzer)"
  by code_simp

lemma set_map_set: "set (map_set k v m) \<subseteq> insert (k, v) (set m)"
  by (induction m) (auto split: if_splits)

lemma normalizeFeatureData_fields:
  "normalizeFeatureData h entry key = Inr f \<Longrightarrow>
     f_status f = getBaselineStatus h (wf_baseline entry) \<and> f_severity f = getSeverity (f_status f)"
  by (auto simp: normalizeFeatureData_def Let_def split: sum.splits)

lemma set_features_invariant:
  assumes "set_features h entries this = (this', e)"
      and "\<And>k f. (k, f) \<in> set (efeatures this) \<Longrightarrow> P f"
      and "\<And>entry key f. normalizeFeatureData h entry key = Inr f \<Longrightarrow> P f"
  shows "(k, f) \<in> set (efeatures this') \<Longrightarrow> P f"
  using assms(1,2)
proof (induction entries arbitrary: this)
  case Nil
  then show ?case by simp
next
  case (Cons kw entries)
  obtain key entry where kw: "kw = (key, entry)" by (cases kw)
  show ?case
  proof (cases "normalizeFeatureData h entry key")
    case (Inl err)
    with Cons.prems kw show ?thesis by auto
  next
    case (Inr g)
    let ?a = "this\<lparr> efeatures := map_set key g (efeatures this) \<rparr>"
    have step: "set_features h entries ?a = (this', e)"
      using Cons.prems(2) kw Inr by simp
    have inv: "P f'" if "(k', f') \<in> set (efeatures ?a)" for k' f'
    proof -
      from that have "(k', f') \<in> insert (key, g) (set (efeatures this))"
        using set_map_set [of key g "efeatures this"] by auto
      then show ?thesis
        using Cons.prems(3) assms(3) [OF Inr] by auto
    qed
    show ?thesis
      by (rule Cons.IH [OF Cons.prems(1) step inv])
  qed
qed

lemma efeatures_dashboard: "efeatures (fst (loadWebPlatformDashboardData this)) = efeatures this"
proof -
  have "efeatures (foldl (\<lambda>t (key, data). t\<lparr> webPlatformData := map_set key data (webPlatformData t) \<rparr>) this xs)
          = efeatures this" for xs
    by (induction xs arbitrary: this) (simp_all add: case_prod_beta)
  then show ?thesis by (simp add: loadWebPlatformDashboardData_def)
qed

lemma efeatures_performance: "efeatures (fst (loadPerformanceData this)) = efeatures this"
proof -
  have "efeatures (foldl (\<lambda>t (key, data). t\<lparr> performanceData := map_set key data (performanceData t) \<rparr>) this xs)
          = efeatures this" for xs
    by (induction xs arbitrary: this) (simp_all add: case_prod_beta)
  then show ?thesis by (simp add: loadPerformanceData_def)
qed

lemma efeatures_community: "efeatures (fst (loadCommunityData this)) = efeatures this"
proof -
  have "efeatures (foldl (\<lambda>t (key, data). t\<lparr> communityData := map_set key data (communityData t) \<rparr>) this xs)
          = efeatures this" for xs
    by (induction xs arbitrary: this) (simp_all add: case_prod_beta)
  then show ?thesis by (simp add: loadCommunityData_def)
qed

lemma efeatures_loadOfficialData_with:
  assumes "\<And>a. efeatures (fst (l2 a)) = efeatures a"
      and "\<And>a. efeatures (fst (l3 a)) = efeatures a"
      and "\<And>a. efeatures (fst (l4 a)) = efeatures a"
  shows "efeatures (loadOfficialData_with l1 l2 l3 l4 this) = efeatures (fst (l1 this))"
proof -
  obtain a1 e1 where 1: "l1 this = (a1, e1)" by (cases "l1 this")
  obtain a2 e2 where 2: "l2 a1 = (a2, e2)" by (cases "l2 a1")
  obtain a3 e3 where 3: "l3 a2 = (a3, e3)" by (cases "l3 a2")
  obtain a4 e4 where 4: "l4 a3 = (a4, e4)" by (cases "l4 a3")
  have "efeatures a4 = efeatures a1"
    using assms(1) [of a1] assms(2) [of a2] assms(3) [of a3] 2 3 4 by simp
  then show ?thesis
    by (simp add: loadOfficialData_with_def 1 2 3 4 loadLocalFeatureDatabase_def Let_def)
qed

lemma efeatures_new:
  "efeatures (new_EnhancedBaselineAnalyzer h) =
     efeatures (fst (loadWebFeaturesData h empty_EnhancedBaselineAnalyzer))"
  unfolding new_EnhancedBaselineAnalyzer_def loadOfficialData_def
  by (rule efeatures_loadOfficialData_with)
     (rule efeatures_dashboard efeatures_performance efeatures_community)+

lemma new_enhanced_features:
  assumes "(k, f) \<in> set (efeatures (new_EnhancedBaselineAnalyzer h))"
  shows "f_status f \<in> set statuses \<and> f_severity f = getSeverity (f_status f)"
proof -
  obtain this' e where s: "set_features h webFeaturesData empty_EnhancedBaselineAnalyzer = (this', e)"
    by (cases "set_features h webFeaturesData empty_EnhancedBaselineAnalyzer")
  have m: "(k, f) \<in> set (efeatures this')"
    using assms by (simp add: efeatures_new loadWebFeaturesData_def s)
  show ?thesis
  proof (rule set_features_invariant [OF s _ _ m])
    fix k f assume "(k, f) \<in> set (efeatures empty_EnhancedBaselineAnalyzer)"
    then show "f_status f \<in> set statuses \<and> f_severity f = getSeverity (f_status f)"
      by (simp add: empty_EnhancedBaselineAnalyzer_def)
  next
    fix entry key f assume "normalizeFeatureData h entry key = Inr f"
    then show "f_status f \<in> set statuses \<and> f_severity f = getSeverity (f_status f)"
      using normalizeFeatureData_fields [of h entry key f] getBaselineStatus_range by simp
  qed
qed

lemma status_severity_pair:
  assumes "st \<in> set statuses"
  shows "(st, getSeverity st) \<in> set spec_severity"
proof -
  from assms consider "st = ''widely-available''" | "st = ''newly-available''"
    | "st = ''limited''" | "st = ''unsupported''"
    by (auto simp: statuses_def)
  then show ?thesis
    by cases (simp_all add: getSeverity_table spec_severity_def)
qed

text \<open>
  Claim C3. Every occurrence that \<open>analyzeCode\<close> produces carries the severity that the fixed
  table gives for its status: \<open>widely-available\<close> to \<open>info\<close>, \<open>newly-available\<close> and
  \<open>limited\<close> to \<open>warning\<close>, \<open>unsupported\<close> to \<open>error\<close>. In \<open>BaselineAnalyzer\<close> the
  severity is \<open>getSeverity\<close> of the status whatever the feature table holds, and the
  table of the constructor holds the four statuses only; in \<open>EnhancedBaselineAnalyzer\<close> the
  severity and the status were fixed together when the descriptor was normalised, for every
  clock and every date parser.
\<close>

theorem severity_is_image_of_status:
  "(\<exists>r. analyzeCode this (JString t) language = Inr r \<and>
        list_all (\<lambda>i. severity i = getSeverity (status i)) (issues r)) \<and>
   (\<exists>r. analyzeCode new_BaselineAnalyzer (JString t) language = Inr r \<and>
        list_all (\<lambda>i. (status i, severity i) \<in> set spec_severity) (issues r)) \<and>
   (\<exists>r. enhanced_analyzeCode (new_EnhancedBaselineAnalyzer h) (JString t) language = Inr r \<and>
        list_all (\<lambda>i. (status i, severity i) \<in> set spec_severity) (eissues r))"
proof (intro conjI)
  show "\<exists>r. analyzeCode this (JString t) language = Inr r \<and>
        list_all (\<lambda>i. severity i = getSeverity (status i)) (issues r)"
  proof -
    have "severity i = getSeverity (status i)"
      if "i \<in> set (found (features this) (js_split CHR 0x0A t))" for i
      using found_fields [OF that] by auto
    then show ?thesis
      by (simp add: analyzeCode_string enrichResults_fields list_all_iff)
  qed
next
  have "(status i, severity i) \<in> set spec_severity"
    if "i \<in> set (found (features new_BaselineAnalyzer) (js_split CHR 0x0A t))" for i
  proof -
    from found_fields [OF that] obtain f where
      f: "(issue_id i, f) \<in> set (features new_BaselineAnalyzer)" "status i = f_status f"
         "severity i = getSeverity (f_status f)"
      by blast
    from f(1) catalog_statuses have "f_status f \<in> set statuses"
      by (auto simp: list_all_iff)
    then show ?thesis
      using f status_severity_pair by simp
  qed
  then show "\<exists>r. analyzeCode new_BaselineAnalyzer (JString t) language = Inr r \<and>
        list_all (\<lambda>i. (status i, severity i) \<in> set spec_severity) (issues r)"
    by (simp add: analyzeCode_string enrichResults_fields list_all_iff)
next
  let ?a = "new_EnhancedBaselineAnalyzer h"
  have "(status i, severity i) \<in> set spec_severity"
    if "i \<in> set (enhanced_found ?a (js_split CHR 0x0A t))" for i
  proof -
    from enhanced_found_fields [OF that] obtain f where
      f: "(issue_id i, f) \<in> set (efeatures ?a)" "status i = f_status f"
         "severity i = f_severity f"
      by blast
    from new_enhanced_features [OF f(1)] show ?thesis
      using f status_severity_pair by simp
  qed
  then show "\<exists>r. enhanced_analyzeCode ?a (JString t) language = Inr r \<and>
        list_all (\<lambda>i. (status i, severity i) \<in> set spec_severity) (eissues r)"
    by (simp add: enhanced_analyzeCode_string enhanced_enrichResults_fields list_all_iff)
qed

subsection \<open>Suggestions\<close>

lemma generateSuggestions_concat:
  "generateSuggestions results =
     (if 0 < length (filter (\<lambda>r. severity r = ''error'') results)
      then [\<lparr> kind = ''error'',
              message = string_of_nat (length (filter (\<lambda>r. severity r = ''error'') results)) @
                        '' unsupported feature'' @
                        (if 1 < length (filter (\<lambda>r. severity r = ''error'') results) then ''s'' else []) @
                        '' may break in older browsers'',
              action = ''Add polyfills or implement fallbacks'' \<rparr>]
      else []) @
     (if 2 < length (filter (\<lambda>r. severity r = ''warning'') results)
      then [\<lparr> kind = ''warning'',
              message = string_of_nat (length (filter (\<lambda>r. severity r = ''warning'') results)) @
                        '' newly available features detected'',
              action = ''Verify against your browser support requirements'' \<rparr>]
      else []) @
     (if 0 < length (filter (\<lambda>r. truthy (polyfill r)) results)
      then [\<lparr> kind = ''fix'',
              message = string_of_nat (length (filter (\<lambda>r. truthy (polyfill r)) results)) @
                        '' feature'' @
                        (if 1 < length (filter (\<lambda>r. truthy (polyfill r)) results)
                         then ''s have'' else '' has'') @
                        '' polyfill options available'',
              action = ''Consider adding recommended polyfills'' \<rparr>]
      else [])"
  unfolding generateSuggestions_def Let_def by simp

lemma kinds_generateSuggestions:
  "map kind (generateSuggestions results) =
     (if 0 < length (filter (\<lambda>r. severity r = ''error'') results) then [''error''] else []) @
     (if 2 < length (filter (\<lambda>r. severity r = ''warning'') results) then [''warning''] else []) @
     (if 0 < length (filter (\<lambda>r. truthy (polyfill r)) results) then [''fix''] else [])"
  unfolding generateSuggestions_concat by simp

lemma some_polyfill:
  "(0 < length (filter (\<lambda>r. truthy (polyfill r)) results)) = (\<exists>r\<in>set results. truthy (polyfill r))"
  by (simp add: filter_empty_conv)

lemma rules_independent:
  "\<exists>results :: issue list.
     (0 < length (filter (\<lambda>r. severity r = ''error'') results)) = a \<and>
     (2 < length (filter (\<lambda>r. severity r = ''warning'') results)) = b \<and>
     (\<exists>r\<in>set results. truthy (polyfill r)) = c"
proof -
  let ?rs = "(if a then [sample_issue ''error'' None] else []) @
             (if b then replicate 3 (sample_issue ''warning'' None) else []) @
             (if c then [sample_issue ''info'' (Some ''p'')] else [])"
  have "(0 < length (filter (\<lambda>r. severity r = ''error'') ?rs)) = a"
    by (simp add: sample_issue_def)
  moreover have "(2 < length (filter (\<lambda>r. severity r = ''warning'') ?rs)) = b"
    by (simp add: sample_issue_def)
  moreover have "(\<exists>r\<in>set ?rs. truthy (polyfill r)) = c"
    by (cases a; cases b; cases c) (simp_all add: sample_issue_def truthy_def)
  ultimately show ?thesis by blast
qed

text \<open>
  Claim C6. \<open>generateSuggestions\<close> applies three rules in a fixed order. The suggestion
  "N unsupported features may break in older browsers" is emitted exactly when the number N
  of occurrences of severity \<open>error\<close> is above 0; "N newly available features detected"
  exactly when the number N of occurrences of severity \<open>warning\<close> is above 2; the
  suggestion about polyfill options exactly when some occurrence has a polyfill name that is
  present and not empty. The kinds come in the order error, warning, fix, and each of the
  eight combinations of rules that fire is met by some list of occurrences.
\<close>

theorem generateSuggestions_rules:
  fixes results :: "('a issue_scheme) list"
  shows
  "(''error'' \<in> set (map kind (generateSuggestions results))) =
     (0 < length (filter (\<lambda>r. severity r = ''error'') results)) \<and>
   (''warning'' \<in> set (map kind (generateSuggestions results))) =
     (2 < length (filter (\<lambda>r. severity r = ''warning'') results)) \<and>
   (''fix'' \<in> set (map kind (generateSuggestions results))) =
     (\<exists>r\<in>set results. truthy (polyfill r)) \<and>
   map kind (generateSuggestions results) =
     filter (\<lambda>k. k \<in> set (map kind (generateSuggestions results))) [''error'', ''warning'', ''fix''] \<and>
   map message (filter (\<lambda>s. kind s = ''error'') (generateSuggestions results)) =
     (if 0 < length (filter (\<lambda>r. severity r = ''error'') results)
      then [string_of_nat (length (filter (\<lambda>r. severity r = ''error'') results)) @
            '' unsupported feature'' @
            (if 1 < length (filter (\<lambda>r. severity r = ''error'') results) then ''s'' else []) @
            '' may break in older browsers'']
      else []) \<and>
   map message (filter (\<lambda>s. kind s = ''warning'') (generateSuggestions results)) =
     (if 2 < length (filter (\<lambda>r. severity r = ''warning'') results)
      then [string_of_nat (length (filter (\<lambda>r. severity r = ''warning'') results)) @
            '' newly available features detected'']
      else []) \<and>
   map message (filter (\<lambda>s. kind s = ''fix'') (generateSuggestions results)) =
     (if \<exists>r\<in>set results. truthy (polyfill r)
      then [string_of_nat (length (filter (\<lambda>r. truthy (polyfill r)) results)) @
            '' feature'' @
            (if 1 < length (filter (\<lambda>r. truthy (polyfill r)) results)
             then ''s have'' else '' has'') @
            '' polyfill options available'']
      else []) \<and>
   (\<forall>a b c. \<exists>rs :: issue list.
      (''error'' \<in> set (map kind (generateSuggestions rs))) = a \<and>
      (''warning'' \<in> set (map kind (generateSuggestions rs))) = b \<and>
      (''fix'' \<in> set (map kind (generateSuggestions rs))) = c)"
proof -
  let ?E = "0 < length (filter (\<lambda>r. severity r = ''error'') results)"
  let ?W = "2 < length (filter (\<lambda>r. severity r = ''warning'') results)"
  let ?P = "0 < length (filter (\<lambda>r. truthy (polyfill r)) results)"
  have k: "map kind (generateSuggestions rs) =
     (if 0 < length (filter (\<lambda>r. severity r = ''error'') rs) then [''error''] else []) @
     (if 2 < length (filter (\<lambda>r. severity r = ''warning'') rs) then [''warning''] else []) @
     (if 0 < length (filter (\<lambda>r. truthy (polyfill r)) rs) then [''fix''] else [])"
    for rs :: "('b issue_scheme) list"
    by (rule kinds_generateSuggestions)
  have 1: "(''error'' \<in> set (map kind (generateSuggestions rs))) =
             (0 < length (filter (\<lambda>r. severity r = ''error'') rs))" for rs :: "('b issue_scheme) list"
    unfolding k by simp
  have 2: "(''warning'' \<in> set (map kind (generateSuggestions rs))) =
             (2 < length (filter (\<lambda>r. severity r = ''warning'') rs))" for rs :: "('b issue_scheme) list"
    unfolding k by simp
  have 3: "(''fix'' \<in> set (map kind (generateSuggestions rs))) =
             (\<exists>r\<in>set rs. truthy (polyfill r))" for rs :: "('b issue_scheme) list"
    unfolding k some_polyfill [symmetric] by simp
  have 4: "map kind (generateSuggestions results) =
     filter (\<lambda>k. k \<in> set (map kind (generateSuggestions results))) [''error'', ''warning'', ''fix'']"
    unfolding k by simp
  have 5: "map message (filter (\<lambda>s. kind s = ''error'') (generateSuggestions results)) =
     (if ?E
      then [string_of_nat (length (filter (\<lambda>r. severity r = ''error'') results)) @
            '' unsupported feature'' @
            (if 1 < length (filter (\<lambda>r. severity r = ''error'') results) then ''s'' else []) @
            '' may break in older browsers'']
      else [])"
    unfolding generateSuggestions_concat by simp
  have 6: "map message (filter (\<lambda>s. kind s = ''warning'') (generateSuggestions results)) =
     (if ?W
      then [string_of_nat (length (filter (\<lambda>r. severity r = ''warning'') results)) @
            '' newly available features detected'']
      else [])"
    unfolding generateSuggestions_concat by simp
  have 8: "map message (filter (\<lambda>s. kind s = ''fix'') (generateSuggestions results)) =
     (if \<exists>r\<in>set results. truthy (polyfill r)
      then [string_of_nat (length (filter (\<lambda>r. truthy (polyfill r)) results)) @
            '' feature'' @
            (if 1 < length (filter (\<lambda>r. truthy (polyfill r)) results)
             then ''s have'' else '' has'') @
            '' polyfill options available'']
      else [])"
    unfolding generateSuggestions_concat some_polyfill [symmetric] by simp
  have 7: "\<exists>rs :: issue list.
      (''error'' \<in> set (map kind (generateSuggestions rs))) = a \<and>
      (''warning'' \<in> set (map kind (generateSuggestions rs))) = b \<and>
      (''fix'' \<in> set (map kind (generateSuggestions rs))) = c" for a b c
    unfolding 1 2 3 by (rule rules_independent)
  from 1 [of results] 2 [of results] 3 [of results] 4 5 6 8 7 show ?thesis
    by blast
qed

subsection \<open>Availability from dates\<close>

text \<open>
  Claim C9. For every host (clock and date parser) and every baseline record whose two dates
  parse: the status is \<open>widely-available\<close> when the high date has passed (is not after the
  clock), \<open>newly-available\<close> when the low date has passed and the high date has not,
  \<open>limited\<close> when neither has passed. Without a baseline record it is \<open>unsupported\<close>. In
  every case, also with dates that do not parse, the result is one of the four statuses,
  never \<open>null\<close>.
\<close>

theorem getBaselineStatus_by_dates:
  "getBaselineStatus h None = ''unsupported'' \<and>
   getBaselineStatus h absent_or_present \<in> set statuses \<and>
   (Date_parse h (low_date b) = Some lo \<and> Date_parse h (high_date b) = Some hi \<longrightarrow>
      (hi \<le> now h \<longrightarrow> getBaselineStatus h (Some b) = ''widely-available'') \<and>
      (lo \<le> now h \<and> \<not> hi \<le> now h \<longrightarrow> getBaselineStatus h (Some b) = ''newly-available'') \<and>
      (\<not> lo \<le> now h \<and> \<not> hi \<le> now h \<longrightarrow> getBaselineStatus h (Some b) = ''limited''))"
  by (simp add: getBaselineStatus_def date_le_def Let_def statuses_def split: option.splits)

theorem getBaselineStatus_by_dates_witness:
  "Date_parse (host_at 1800000000000) ''2022-03-14'' = Some 1647216000000 \<and>
   Date_parse (host_at 1800000000000) ''2024-09-14'' = Some 1726272000000 \<and>
   getBaselineStatus (host_at 1800000000000)
     (Some \<lparr> baseline_status = ''high'', low_date = ''2022-03-14'', high_date = ''2024-09-14'' \<rparr>)
     = ''widely-available'' \<and>
   getBaselineStatus (host_at 1700000000000)
     (Some \<lparr> baseline_status = ''high'', low_date = ''2022-03-14'', high_date = ''2024-09-14'' \<rparr>)
     = ''newly-available'' \<and>
   getBaselineStatus (host_at 1600000000000)
     (Some \<lparr> baseline_status = ''high'', low_date = ''2022-03-14'', high_date = ''2024-09-14'' \<rparr>)
     = ''limited''"
proof -
  let ?b = "\<lparr> baseline_status = ''high'', low_date = ''2022-03-14'', high_date = ''2024-09-14'' \<rparr>"
  have lo: "iso_date ''2022-03-14'' = Some 1647216000000" by code_simp
  have hi: "iso_date ''2024-09-14'' = Some 1726272000000" by code_simp
  have d: "Date_parse (host_at n) (low_date ?b) = Some 1647216000000 \<and>
           Date_parse (host_at n) (high_date ?b) = Some 1726272000000" for n
    by (simp add: host_at_def lo hi)
  show ?thesis
    using getBaselineStatus_by_dates [of "host_at 1800000000000" None ?b 1647216000000 1726272000000]
      getBaselineStatus_by_dates [of "host_at 1700000000000" None ?b 1647216000000 1726272000000]
      getBaselineStatus_by_dates [of "host_at 1600000000000" None ?b 1647216000000 1726272000000]
      d [of 1800000000000] d [of 1700000000000] d [of 1600000000000]
    by (simp add: host_at_def)
qed

subsection \<open>One occurrence per feature and line\<close>

lemma filter_lines:
  fixes g :: "nat \<times> string \<Rightarrow> ('a issue_scheme) list"
  assumes "\<And>il r. r \<in> set (g il) \<Longrightarrow> line r = fst il + 1"
  shows "filter (\<lambda>i. line i = n) (concat (map g (enumerate m ls))) =
           (if m < n \<and> n \<le> m + length ls then g (n - 1, ls ! (n - 1 - m)) else [])"
proof (induction ls arbitrary: m)
  case Nil
  then show ?case by auto
next
  case (Cons l ls)
  have first: "filter (\<lambda>i. line i = n) (g (m, l)) = (if n = m + 1 then g (m, l) else [])"
    using assms [of _ "(m, l)"] by (auto simp: filter_empty_conv filter_id_conv)
  have split: "filter (\<lambda>i. line i = n) (concat (map g (enumerate m (l # ls)))) =
      filter (\<lambda>i. line i = n) (g (m, l)) @
      filter (\<lambda>i. line i = n) (concat (map g (enumerate (Suc m) ls)))"
    by simp
  show ?case
    unfolding split first Cons.IH
    by (auto simp: nth_Cons' Suc_diff_Suc)
qed

lemma filter_other_features:
  fixes g :: "string \<Rightarrow> 'f \<Rightarrow> nat \<times> string \<Rightarrow> ('a issue_scheme) list"
  assumes "\<And>k f il r. r \<in> set (g k f il) \<Longrightarrow> issue_id r = k"
      and "fid \<notin> fst ` set fs"
  shows "filter (\<lambda>i. issue_id i = fid \<and> line i = n)
           (concat (map (\<lambda>(k, f). concat (map (g k f) ps)) fs)) = []"
proof -
  have "issue_id r \<noteq> fid"
    if "r \<in> set (concat (map (\<lambda>(k, f). concat (map (g k f) ps)) fs))" for r
  proof -
    from that obtain k f il where "(k, f) \<in> set fs" "r \<in> set (g k f il)"
      by auto
    then show ?thesis
      using assms(1) [of r k f il] assms(2) by force
  qed
  then show ?thesis
    by (auto simp: filter_empty_conv)
qed

lemma filter_features:
  fixes g :: "string \<Rightarrow> 'f \<Rightarrow> nat \<times> string \<Rightarrow> ('a issue_scheme) list"
  assumes id: "\<And>k f il r. r \<in> set (g k f il) \<Longrightarrow> issue_id r = k"
      and ln: "\<And>k f il r. r \<in> set (g k f il) \<Longrightarrow> line r = fst il + 1"
      and "distinct (map fst fs)"
  shows "filter (\<lambda>i. issue_id i = fid \<and> line i = n)
           (concat (map (\<lambda>(k, f). concat (map (g k f) (enumerate 0 lines))) fs)) =
         (case map_of fs fid of
            None \<Rightarrow> []
          | Some f \<Rightarrow> if 0 < n \<and> n \<le> length lines then g fid f (n - 1, lines ! (n - 1)) else [])"
  using assms(3)
proof (induction fs)
  case Nil
  then show ?case by simp
next
  case (Cons kf fs)
  obtain k f where kf: "kf = (k, f)" by (cases kf)
  let ?P = "\<lambda>i. issue_id i = fid \<and> line i = n"
  let ?here = "concat (map (g k f) (enumerate 0 lines))"
  show ?case
  proof (cases "k = fid")
    case True
    have "filter ?P ?here = filter (\<lambda>i. line i = n) ?here"
    proof (rule filter_cong [OF refl])
      fix r assume "r \<in> set ?here"
      then obtain il where "r \<in> set (g k f il)" by auto
      then show "(issue_id r = fid \<and> line r = n) = (line r = n)"
        using id [of r k f il] True by simp
    qed
    also have "\<dots> = (if 0 < n \<and> n \<le> length lines then g k f (n - 1, lines ! (n - 1)) else [])"
      using filter_lines [of "g k f" n 0 lines] ln [of _ k f] by simp
    finally have here: "filter ?P ?here =
        (if 0 < n \<and> n \<le> length lines then g k f (n - 1, lines ! (n - 1)) else [])" .
    have "fid \<notin> fst ` set fs"
      using Cons.prems kf True by auto
    then have rest: "filter ?P (concat (map (\<lambda>(k, f). concat (map (g k f) (enumerate 0 lines))) fs)) = []"
      using filter_other_features [of g fid fs n "enumerate 0 lines"] id by blast
    have "filter ?P (?here @ concat (map (\<lambda>(k, f). concat (map (g k f) (enumerate 0 lines))) fs)) =
          (if 0 < n \<and> n \<le> length lines then g k f (n - 1, lines ! (n - 1)) else [])"
      unfolding filter_append here rest by simp
    then show ?thesis
      unfolding kf using True by simp
  next
    case False
    have here: "filter ?P ?here = []"
    proof -
      have "issue_id r \<noteq> fid" if "r \<in> set ?here" for r
      proof -
        from that obtain il where "r \<in> set (g k f il)" by auto
        then show ?thesis using id [of r k f il] False by simp
      qed
      then show ?thesis by (auto simp: filter_empty_conv)
    qed
    have rest: "filter ?P (concat (map (\<lambda>(k, f). concat (map (g k f) (enumerate 0 lines))) fs)) =
         (case map_of fs fid of
            None \<Rightarrow> []
          | Some f \<Rightarrow> if 0 < n \<and> n \<le> length lines then g fid f (n - 1, lines ! (n - 1)) else [])"
      using Cons.IH Cons.prems by simp
    have "filter ?P (?here @ concat (map (\<lambda>(k, f). concat (map (g k f) (enumerate 0 lines))) fs)) =
         (case map_of fs fid of
            None \<Rightarrow> []
          | Some f \<Rightarrow> if 0 < n \<and> n \<le> length lines then g fid f (n - 1, lines ! (n - 1)) else [])"
      unfolding filter_append here rest by simp
    then show ?thesis
      unfolding kf using False by simp
  qed
qed

lemma scan_line_short: "length (scan_line fid f [] il) \<le> Suc 0"
  by (simp add: scan_line_def split: prod.splits option.splits)

lemma enhanced_scan_line_short: "length (enhanced_scan_line this fid f [] il) \<le> Suc 0"
  by (simp add: enhanced_scan_line_def split: prod.splits option.splits)

lemma scan_line_match:
  "js_match l (f_pattern f) = Some m \<Longrightarrow>
     map (\<lambda>i. (matchedText i, column i)) (scan_line fid f [] (k, l)) = [(m, indexOf l m + 1)]"
  by (simp add: scan_line_def)

lemma enhanced_scan_line_match:
  "js_match l (f_pattern f) = Some m \<Longrightarrow>
     map (\<lambda>i. (matchedText i, column i)) (enhanced_scan_line this fid f [] (k, l)) =
       [(m, indexOf l m + 1)]"
  by (simp add: enhanced_scan_line_def)

text \<open>The bound of \<open>matches_upto\<close> is never what ends the list of matches.\<close>

lemma matches_upto_enough:
  "Suc (length s) \<le> n \<Longrightarrow> Suc (length s) \<le> n' \<Longrightarrow> matches_upto n p s = matches_upto n' p s"
proof (induction n arbitrary: n' s)
  case 0
  then show ?case by simp
next
  case (Suc n)
  from Suc.prems(2) obtain k where n': "n' = Suc k" by (cases n') auto
  have "matches_upto n p (drop j s) = matches_upto k p (drop j s)"
    if "1 \<le> j" "j \<le> length s" for j
    using that Suc.prems n' by (intro Suc.IH) auto
  then show ?case
    unfolding n' by (auto split: option.splits)
qed

lemma global_matches_fuel:
  "Suc (length s) \<le> n \<Longrightarrow> matches_upto n p s = global_matches p s"
  unfolding global_matches_def by (rule matches_upto_enough) simp_all

lemma first_global_match:
  assumes "2 \<le> length (global_matches p s)"
  shows "js_match s p = Some (hd (global_matches p s))"
proof (cases "exec_from 0 p s")
  case None
  with assms show ?thesis by (simp add: global_matches_def)
next
  case (Some im)
  then show ?thesis
    by (cases im) (simp add: global_matches_def js_match_def)
qed

lemma filter_found:
  assumes "distinct (map fst fs)"
  shows "filter (\<lambda>i. issue_id i = fid \<and> line i = n) (found fs lines) =
         (case map_of fs fid of
            None \<Rightarrow> []
          | Some f \<Rightarrow> if 0 < n \<and> n \<le> length lines
                      then scan_line fid f [] (n - 1, lines ! (n - 1)) else [])"
  unfolding found_def
  by (rule filter_features [of "\<lambda>k f. scan_line k f []"])
     (use scan_line_fields assms in auto)

lemma filter_enhanced_found:
  assumes "distinct (map fst (efeatures this))"
  shows "filter (\<lambda>i. issue_id i = fid \<and> line i = n) (enhanced_found this lines) =
         (case map_of (efeatures this) fid of
            None \<Rightarrow> []
          | Some f \<Rightarrow> if 0 < n \<and> n \<le> length lines
                      then enhanced_scan_line this fid f [] (n - 1, lines ! (n - 1)) else [])"
  unfolding enhanced_found_def
  by (rule filter_features [of "\<lambda>k f. enhanced_scan_line this k f []"])
     (use enhanced_scan_line_fields assms in auto)

text \<open>
  Claim C4. In both analyzers (the keys of a \<open>Map\<close> are distinct), for every text, every
  feature id and every line number, at most one occurrence of that feature is recorded on
  that line. A line on which the feature's pattern matches two or more times yields exactly
  one occurrence, and its matched text is that of the first match, its column the first
  position of that text in the line, counted from 1.
\<close>

theorem one_occurrence_per_feature_and_line:
  assumes "distinct (map fst (features this))"
      and "distinct (map fst (efeatures that))"
  shows
  "(\<exists>r. analyzeCode this (JString t) language = Inr r \<and>
        length (filter (\<lambda>i. issue_id i = fid \<and> line i = n) (issues r)) \<le> 1 \<and>
        ((fid, f) \<in> set (features this) \<and> k < length (js_split CHR 0x0A t) \<and>
         2 \<le> length (global_matches (f_pattern f) (js_split CHR 0x0A t ! k)) \<longrightarrow>
           map (\<lambda>i. (matchedText i, column i))
             (filter (\<lambda>i. issue_id i = fid \<and> line i = k + 1) (issues r)) =
             [(hd (global_matches (f_pattern f) (js_split CHR 0x0A t ! k)),
               indexOf (js_split CHR 0x0A t ! k)
                 (hd (global_matches (f_pattern f) (js_split CHR 0x0A t ! k))) + 1)])) \<and>
   (\<exists>r. enhanced_analyzeCode that (JString t) language = Inr r \<and>
        length (filter (\<lambda>i. issue_id i = fid \<and> line i = n) (eissues r)) \<le> 1 \<and>
        ((fid, ef) \<in> set (efeatures that) \<and> k < length (js_split CHR 0x0A t) \<and>
         2 \<le> length (global_matches (f_pattern ef) (js_split CHR 0x0A t ! k)) \<longrightarrow>
           map (\<lambda>i. (matchedText i, column i))
             (filter (\<lambda>i. issue_id i = fid \<and> line i = k + 1) (eissues r)) =
             [(hd (global_matches (f_pattern ef) (js_split CHR 0x0A t ! k)),
               indexOf (js_split CHR 0x0A t ! k)
                 (hd (global_matches (f_pattern ef) (js_split CHR 0x0A t ! k))) + 1)]))"
proof -
  let ?lines = "js_split CHR 0x0A t"
  have a1: "length (filter (\<lambda>i. issue_id i = fid \<and> line i = n) (found (features this) ?lines)) \<le> 1"
    unfolding filter_found [OF assms(1)]
    by (simp add: scan_line_short split: option.splits)
  have a2: "map (\<lambda>i. (matchedText i, column i)) (filter (\<lambda>i. issue_id i = fid \<and> line i = k + 1)
                (found (features this) ?lines)) =
              [(hd (global_matches (f_pattern f) (?lines ! k)),
                indexOf (?lines ! k) (hd (global_matches (f_pattern f) (?lines ! k))) + 1)]"
    if "(fid, f) \<in> set (features this)" "k < length ?lines"
       "2 \<le> length (global_matches (f_pattern f) (?lines ! k))"
  proof -
    have "map_of (features this) fid = Some f"
      using that(1) assms(1) by simp
    then show ?thesis
      unfolding filter_found [OF assms(1)]
      using that(2) scan_line_match [OF first_global_match [OF that(3)]] by simp
  qed
  have b1: "length (filter (\<lambda>i. issue_id i = fid \<and> line i = n)
                (enhanced_found that ?lines)) \<le> 1"
    unfolding filter_enhanced_found [OF assms(2)]
    by (simp add: enhanced_scan_line_short split: option.splits)
  have b2: "map (\<lambda>i. (matchedText i, column i)) (filter (\<lambda>i. issue_id i = fid \<and> line i = k + 1)
                (enhanced_found that ?lines)) =
              [(hd (global_matches (f_pattern ef) (?lines ! k)),
                indexOf (?lines ! k) (hd (global_matches (f_pattern ef) (?lines ! k))) + 1)]"
    if "(fid, ef) \<in> set (efeatures that)" "k < length ?lines"
       "2 \<le> length (global_matches (f_pattern ef) (?lines ! k))"
  proof -
    have "map_of (efeatures that) fid = Some ef"
      using that(1) assms(2) by simp
    then show ?thesis
      unfolding filter_enhanced_found [OF assms(2)]
      using that(2) enhanced_scan_line_match [OF first_global_match [OF that(3)]] by simp
  qed
  show ?thesis
    using a1 a2 b1 b2
    by (simp add: analyzeCode_string enhanced_analyzeCode_string enrichResults_fields
        enhanced_enrichResults_fields)
qed

lemma map_of_the_mem: "k \<in> set (map fst m) \<Longrightarrow> (k, the (map_of m k)) \<in> set m"
proof -
  assume "k \<in> set (map fst m)"
  then have "map_of m k \<noteq> None"
    by (simp add: map_of_eq_None_iff)
  then obtain v where "map_of m k = Some v" by blast
  then show ?thesis by (simp add: map_of_SomeD)
qed

theorem one_occurrence_per_feature_and_line_witness:
  "distinct (map fst (features new_BaselineAnalyzer)) \<and>
   distinct (map fst (efeatures (new_EnhancedBaselineAnalyzer (host_at 1700000000000)))) \<and>
   global_matches \<lparr> source = lit ''?.'', ignoreCase = False \<rparr> ''a?.b?.c'' = [''?.'', ''?.''] \<and>
   (\<exists>r. analyzeCode new_BaselineAnalyzer (JString ''a?.b?.c'') Undefined = Inr r \<and>
        map (\<lambda>i. (matchedText i, column i))
          (filter (\<lambda>i. issue_id i = ''optional-chaining'' \<and> line i = 1) (issues r)) = [(''?.'', 2)]) \<and>
   (\<exists>r. enhanced_analyzeCode (new_EnhancedBaselineAnalyzer (host_at 1700000000000))
          (JString ''a?.b?.c'') Undefined = Inr r \<and>
        map (\<lambda>i. (matchedText i, column i))
          (filter (\<lambda>i. issue_id i = ''optional-chaining'' \<and> line i = 1) (eissues r)) = [(''?.'', 2)])"
proof -
  let ?A = "new_BaselineAnalyzer"
  let ?B = "new_EnhancedBaselineAnalyzer (host_at 1700000000000)"
  let ?p = "\<lparr> source = lit ''?.'', ignoreCase = False \<rparr>"
  let ?f = "the (map_of (features ?A) ''optional-chaining'')"
  let ?g = "the (map_of (efeatures ?B) ''optional-chaining'')"
  let ?l = "js_split CHR 0x0A ''a?.b?.c''"
  have dA: "distinct (map fst (features ?A))" by code_simp
  have dB: "distinct (map fst (efeatures ?B))" by code_simp
  have gm: "global_matches ?p ''a?.b?.c'' = [''?.'', ''?.'']" by code_simp
  have pf: "f_pattern ?f = ?p" by code_simp
  have pg: "f_pattern ?g = ?p" by code_simp
  have kA: "''optional-chaining'' \<in> set (map fst (features ?A))" by code_simp
  have kB: "''optional-chaining'' \<in> set (map fst (efeatures ?B))" by code_simp
  have l: "?l = [''a?.b?.c'']" by simp
  have k: "0 < length ?l" unfolding l by simp
  have li: "?l ! 0 = ''a?.b?.c''" unfolding l by simp
  have cA: "2 \<le> length (global_matches (f_pattern ?f) (?l ! 0))"
    unfolding li pf gm by simp
  have cB: "2 \<le> length (global_matches (f_pattern ?g) (?l ! 0))"
    unfolding li pg gm by simp
  have hA2: "hd (global_matches (f_pattern ?f) ''a?.b?.c'') = ''?.''"
    unfolding pf gm by simp
  have hB2: "hd (global_matches (f_pattern ?g) ''a?.b?.c'') = ''?.''"
    unfolding pg gm by simp
  have ix: "indexOf ''a?.b?.c'' ''?.'' + 1 = 2" by code_simp
  let ?LA = "\<lambda>r. length (filter (\<lambda>i. issue_id i = ''optional-chaining'' \<and> line i = 1) (issues r)) \<le> 1"
  let ?CA = "\<lambda>r. (''optional-chaining'', ?f) \<in> set (features ?A) \<and> 0 < length ?l \<and>
         2 \<le> length (global_matches (f_pattern ?f) (?l ! 0)) \<longrightarrow>
           map (\<lambda>i. (matchedText i, column i))
             (filter (\<lambda>i. issue_id i = ''optional-chaining'' \<and> line i = 0 + 1) (issues r)) =
             [(hd (global_matches (f_pattern ?f) (?l ! 0)),
               indexOf (?l ! 0) (hd (global_matches (f_pattern ?f) (?l ! 0))) + 1)]"
  let ?LB = "\<lambda>r. length (filter (\<lambda>i. issue_id i = ''optional-chaining'' \<and> line i = 1) (eissues r)) \<le> 1"
  let ?CB = "\<lambda>r. (''optional-chaining'', ?g) \<in> set (efeatures ?B) \<and> 0 < length ?l \<and>
         2 \<le> length (global_matches (f_pattern ?g) (?l ! 0)) \<longrightarrow>
           map (\<lambda>i. (matchedText i, column i))
             (filter (\<lambda>i. issue_id i = ''optional-chaining'' \<and> line i = 0 + 1) (eissues r)) =
             [(hd (global_matches (f_pattern ?g) (?l ! 0)),
               indexOf (?l ! 0) (hd (global_matches (f_pattern ?g) (?l ! 0))) + 1)]"
  note T = one_occurrence_per_feature_and_line [OF dA dB,
      of "''a?.b?.c''" Undefined "''optional-chaining''" 1 ?f 0 ?g]
  have one: "(0::nat) + 1 = 1" by simp
  from T have "\<exists>r. analyzeCode ?A (JString ''a?.b?.c'') Undefined = Inr r \<and> ?LA r \<and> ?CA r"
    by (rule conjunct1)
  then obtain r where R: "analyzeCode ?A (JString ''a?.b?.c'') Undefined = Inr r \<and> ?LA r \<and> ?CA r"
    by (rule exE)
  from R have r: "analyzeCode ?A (JString ''a?.b?.c'') Undefined = Inr r"
    by (rule conjunct1)
  from R have "?LA r \<and> ?CA r" by (rule conjunct2)
  then have ri: "?CA r" by (rule conjunct2)
  have "(''optional-chaining'', ?f) \<in> set (features ?A) \<and> 0 < length ?l \<and>
         2 \<le> length (global_matches (f_pattern ?f) (?l ! 0))"
    by (intro conjI map_of_the_mem kA k cA)
  with ri have eA: "map (\<lambda>i. (matchedText i, column i))
             (filter (\<lambda>i. issue_id i = ''optional-chaining'' \<and> line i = 0 + 1) (issues r)) =
             [(hd (global_matches (f_pattern ?f) (?l ! 0)),
               indexOf (?l ! 0) (hd (global_matches (f_pattern ?f) (?l ! 0))) + 1)]"
    by (rule mp)
  from T have "\<exists>r. enhanced_analyzeCode ?B (JString ''a?.b?.c'') Undefined = Inr r \<and> ?LB r \<and> ?CB r"
    by (rule conjunct2)
  then obtain r' where R': "enhanced_analyzeCode ?B (JString ''a?.b?.c'') Undefined = Inr r' \<and> ?LB r' \<and> ?CB r'"
    by (rule exE)
  from R' have r': "enhanced_analyzeCode ?B (JString ''a?.b?.c'') Undefined = Inr r'"
    by (rule conjunct1)
  from R' have "?LB r' \<and> ?CB r'" by (rule conjunct2)
  then have ri': "?CB r'" by (rule conjunct2)
  have "(''optional-chaining'', ?g) \<in> set (efeatures ?B) \<and> 0 < length ?l \<and>
         2 \<le> length (global_matches (f_pattern ?g) (?l ! 0))"
    by (intro conjI map_of_the_mem kB k cB)
  with ri' have eB: "map (\<lambda>i. (matchedText i, column i))
             (filter (\<lambda>i. issue_id i = ''optional-chaining'' \<and> line i = 0 + 1) (eissues r')) =
             [(hd (global_matches (f_pattern ?g) (?l ! 0)),
               indexOf (?l ! 0) (hd (global_matches (f_pattern ?g) (?l ! 0))) + 1)]"
    by (rule mp)
  show ?thesis
  proof (intro conjI)
    show "distinct (map fst (features ?A))" by (rule dA)
    show "distinct (map fst (efeatures ?B))" by (rule dB)
    show "global_matches ?p ''a?.b?.c'' = [''?.'', ''?.'']" by (rule gm)
    show "\<exists>r. analyzeCode ?A (JString ''a?.b?.c'') Undefined = Inr r \<and>
        map (\<lambda>i. (matchedText i, column i))
          (filter (\<lambda>i. issue_id i = ''optional-chaining'' \<and> line i = 1) (issues r)) = [(''?.'', 2)]"
      using r eA unfolding li hA2 ix one by (intro exI [of _ r] conjI)
    show "\<exists>r. enhanced_analyzeCode ?B (JString ''a?.b?.c'') Undefined = Inr r \<and>
        map (\<lambda>i. (matchedText i, column i))
          (filter (\<lambda>i. issue_id i = ''optional-chaining'' \<and> line i = 1) (eissues r)) = [(''?.'', 2)]"
      using r' eB unfolding li hB2 ix one by (intro exI [of _ r'] conjI)
  qed
qed

subsection \<open>Appending a line\<close>

lemma js_split_nonempty: "js_split sep s \<noteq> []"
  by (induction s) (auto split: list.splits)

lemma js_split_append:
  "js_split sep (xs @ sep # ys) = js_split sep xs @ js_split sep ys"
proof (induction xs)
  case Nil
  show ?case by simp
next
  case (Cons c xs)
  obtain l ls where s: "js_split sep xs = l # ls"
    using js_split_nonempty [of sep xs] by (cases "js_split sep xs") auto
  show ?case
    by (simp add: Cons.IH s)
qed

lemma js_split_line: "sep \<notin> set l \<Longrightarrow> js_split sep l = [l]"
  by (induction l) auto

lemma enumerate_snoc:
  "enumerate m (xs @ [x]) = enumerate m xs @ [(m + length xs, x)]"
  by (induction xs arbitrary: m) auto

lemma found_points:
  "(\<Sum>r\<leftarrow>found fs (lines @ [l]). severity_points (severity r)) =
   (\<Sum>r\<leftarrow>found fs lines. severity_points (severity r)) +
   (\<Sum>(fid, f)\<leftarrow>fs. \<Sum>r\<leftarrow>scan_line fid f [] (length lines, l). severity_points (severity r))"
proof (induction fs)
  case Nil
  show ?case by (simp add: found_def)
next
  case (Cons kf fs)
  obtain k f where kf: "kf = (k, f)" by (cases kf)
  have "found (kf # fs) ls = concat (map (scan_line k f []) (enumerate 0 ls)) @ found fs ls" for ls
    by (simp add: found_def kf)
  then show ?case
    using Cons.IH by (simp add: enumerate_snoc kf)
qed

lemma member_le_sum_list_rat:
  fixes xs :: "rat list"
  assumes "x \<in> set xs" and "\<And>y. y \<in> set xs \<Longrightarrow> 0 \<le> y"
  shows "x \<le> sum_list xs"
  using assms
proof (induction xs)
  case Nil
  then show ?case by simp
next
  case (Cons a xs)
  have nn: "0 \<le> sum_list xs"
    by (rule sum_list_nonneg) (simp add: Cons.prems(2))
  show ?case
  proof (cases "x = a")
    case True
    with nn show ?thesis by simp
  next
    case False
    with Cons.prems(1) have "x \<in> set xs" by simp
    then have "x \<le> sum_list xs"
      by (rule Cons.IH) (simp add: Cons.prems(2))
    moreover have "0 \<le> a" by (simp add: Cons.prems(2))
    ultimately show ?thesis by simp
  qed
qed

lemma scan_line_points_nonneg:
  "0 \<le> (\<Sum>r\<leftarrow>scan_line fid f [] il. severity_points (severity r))"
  by (rule sum_list_nonneg) (auto simp: severity_points_nonneg)

lemma unsupported_line_points:
  assumes "f_status f = ''unsupported''" and "js_match l (f_pattern f) \<noteq> None"
  shows "(\<Sum>r\<leftarrow>scan_line fid f [] (k, l). severity_points (severity r)) = 15"
proof -
  from assms(2) obtain m where "js_match l (f_pattern f) = Some m" by blast
  then show ?thesis
    by (simp add: scan_line_def assms(1) getSeverity_table severity_points_def)
qed

text \<open>
  Claim C7. For every text \<open>t\<close> and every line \<open>l\<close> (a string without a line feed) in which an
  \<open>unsupported\<close> feature of the table matches, the risk score of \<open>t\<close> with \<open>l\<close> appended as
  a further line is at least the risk score of \<open>t\<close>; it is even at least that score plus 15,
  up to the cap of 100. (\<open>BaselineAnalyzer\<close>, whatever its feature table holds.)
\<close>

theorem riskScore_monotone_on_append:
  assumes "(fid, f) \<in> set (features this)"
      and "f_status f = ''unsupported''"
      and "js_match l (f_pattern f) \<noteq> None"
      and "CHR 0x0A \<notin> set l"
  shows "\<exists>r r'. analyzeCode this (JString t) language = Inr r \<and>
                analyzeCode this (JString (t @ CHR 0x0A # l)) language = Inr r' \<and>
                riskScore (summary r) \<le> riskScore (summary r') \<and>
                min 100 (riskScore (summary r) + 15) \<le> riskScore (summary r')"
proof -
  let ?lines = "js_split CHR 0x0A t"
  let ?S = "\<Sum>r\<leftarrow>found (features this) ?lines. severity_points (severity r)"
  let ?pts = "\<lambda>(fid, f). \<Sum>r\<leftarrow>scan_line fid f [] (length ?lines, l). severity_points (severity r)"
  let ?X = "sum_list (map ?pts (features this))"
  have lines': "js_split CHR 0x0A (t @ CHR 0x0A # l) = ?lines @ [l]"
    by (simp add: js_split_append js_split_line [OF assms(4)])
  have S': "(\<Sum>r\<leftarrow>found (features this) (?lines @ [l]). severity_points (severity r)) = ?S + ?X"
    by (rule found_points)
  have "?pts (fid, f) \<in> set (map ?pts (features this))"
    unfolding set_map using assms(1) by (rule imageI)
  moreover have "0 \<le> y" if "y \<in> set (map ?pts (features this))" for y
    using that scan_line_points_nonneg by auto
  ultimately have "?pts (fid, f) \<le> ?X"
    by (rule member_le_sum_list_rat)
  then have X: "15 \<le> ?X"
    using unsupported_line_points [OF assms(2,3), of fid "length ?lines"] by simp
  have "min 100 ?S \<le> min 100 (?S + ?X) \<and> min 100 (min 100 ?S + 15) \<le> min 100 (?S + ?X)"
    using X by auto
  then show ?thesis
    by (simp add: analyzeCode_string enrichResults_fields calculateRiskScore_sum lines' S')
qed

theorem riskScore_monotone_on_append_witness:
  "''temporal-api'' \<in> set (map fst (features new_BaselineAnalyzer)) \<and>
   f_status (the (map_of (features new_BaselineAnalyzer) ''temporal-api'')) = ''unsupported'' \<and>
   js_match ''Temporal.now()''
     (f_pattern (the (map_of (features new_BaselineAnalyzer) ''temporal-api''))) = Some ''Temporal.'' \<and>
   CHR 0x0A \<notin> set ''Temporal.now()'' \<and>
   (\<exists>r r'. analyzeCode new_BaselineAnalyzer (JString ''a?.b'') Undefined = Inr r \<and>
      analyzeCode new_BaselineAnalyzer (JString (''a?.b'' @ CHR 0x0A # ''Temporal.now()'')) Undefined
        = Inr r' \<and>
      riskScore (summary r) \<le> riskScore (summary r') \<and>
      min 100 (riskScore (summary r) + 15) \<le> riskScore (summary r'))"
proof -
  let ?A = "new_BaselineAnalyzer"
  let ?f = "the (map_of (features ?A) ''temporal-api'')"
  have k: "''temporal-api'' \<in> set (map fst (features ?A))" by code_simp
  have st: "f_status ?f = ''unsupported''" by code_simp
  have m: "js_match ''Temporal.now()'' (f_pattern ?f) = Some ''Temporal.''" by code_simp
  have nl: "CHR 0x0A \<notin> set ''Temporal.now()''" by simp
  have m': "js_match ''Temporal.now()'' (f_pattern ?f) \<noteq> None"
    unfolding m by simp
  note T = riskScore_monotone_on_append [OF map_of_the_mem [OF k] st m' nl, of "''a?.b''" Undefined]
  show ?thesis
    by (intro conjI k st m nl T)
qed

subsection \<open>Totality\<close>

text \<open>
  Claim C8. For every string and every language hint, \<open>analyzeCode\<close> of \<open>BaselineAnalyzer\<close>
  returns a result and throws nothing: the result holds the occurrences in table order and
  line order, their number as \<open>total\<close>, one of the three risk levels, and the line and
  character counts of the text. (Every function it calls, the matcher included, is defined
  by a terminating recursion; the one \<open>TypeError\<close> of the method is for an argument that is
  no string, see \<open>analyzeCode_not_a_string\<close>.)
\<close>

theorem analyzeCode_returns_a_result:
  "\<exists>r. analyzeCode this (JString t) language = Inr r \<and>
       issues r = found (features this) (js_split CHR 0x0A t) \<and>
       total (summary r) = length (issues r) \<and>
       riskLevel (summary r) \<in> set [''low'', ''medium'', ''high''] \<and>
       1 \<le> linesOfCode (metadata r) \<and>
       charactersCount (metadata r) = length t"
proof -
  have "getRiskLevel s \<in> set [''low'', ''medium'', ''high'']" for s
    by (simp add: getRiskLevel_def)
  moreover have "1 \<le> length (js_split CHR 0x0A t)"
    using js_split_nonempty [of "CHR 0x0A" t] by (cases "js_split CHR 0x0A t") simp_all
  ultimately show ?thesis
    by (simp add: analyzeCode_string enrichResults_fields)
qed

lemma analyzeCode_not_a_string:
  "analyzeCode this Undefined language = Inl TypeError"
  "analyzeCode this Null language = Inl TypeError"
  "analyzeCode this (JNumber x) language = Inl TypeError"
  "analyzeCode this (JBoolean b) language = Inl TypeError"
  by (simp_all add: analyzeCode_def)

subsection \<open>Loading the official data\<close>













end
